theory Spec2Isabelle
  imports Main "HOL-Library.Word"
begin

unbundle bit_operations_syntax

section \<open>Win32 and TSF base types\<close>

text \<open>
  The text service is a COM object driven by the Text Services Framework. Integers keep
  their C widths: \<open>WPARAM\<close>, \<open>LPARAM\<close>, handles and interface pointers are 64-bit
  words, \<open>DWORD\<close> and \<open>uint32_t\<close> are 32-bit words, \<open>WCHAR\<close> is a 16-bit word.
  An \<open>HRESULT\<close> is read as a signed number, so that \<open>FAILED\<close> is "negative". A
  \<open>std::string\<close> is a list of 8-bit characters, a \<open>std::wstring\<close> a list of \<open>WCHAR\<close>.
\<close>

type_synonym byte = "8 word"
type_synonym wchar = "16 word"
type_synonym wstring = "wchar list"
type_synonym HRESULT = int
type_synonym HANDLE = "64 word"
type_synonym HWND = "64 word"
type_synonym WPARAM = "64 word"
type_synonym LPARAM = "64 word"
type_synonym DWORD = "32 word"
type_synonym ptr = "64 word"

definition S_OK :: HRESULT where
  "S_OK = 0"

definition E_FAIL :: HRESULT where
  "E_FAIL = - 2147467259"

definition E_INVALIDARG :: HRESULT where
  "E_INVALIDARG = - 2147024809"

definition FAILED :: "HRESULT \<Rightarrow> bool" where
  "FAILED hr = (hr < 0)"

definition SUCCEEDED :: "HRESULT \<Rightarrow> bool" where
  "SUCCEEDED hr = (hr \<ge> 0)"

definition nullptr :: "64 word" where
  "nullptr = 0"

definition INVALID_HANDLE_VALUE :: HANDLE where
  "INVALID_HANDLE_VALUE = - 1"

definition TF_INVALID_COOKIE :: DWORD where
  "TF_INVALID_COOKIE = - 1"

definition VK_BACK :: WPARAM where
  "VK_BACK = 8"

definition MAX_PATH :: nat where
  "MAX_PATH = 260"

text \<open>
  Assigning a zero-initialised \<open>wchar_t buf[n]\<close> that an API filled to a \<open>std::wstring\<close>
  copies the characters before the first terminator; the API writes at most \<open>n - 1\<close> of them.
\<close>

definition c_wstr :: "nat \<Rightarrow> wstring \<Rightarrow> wstring" where
  "c_wstr n buf = takeWhile (\<lambda>c. c \<noteq> 0) (take (n - 1) buf)"

section \<open>The host: results of the operating system and of TSF\<close>

text \<open>
  Every callback of the service runs against the operating system. What the system answers
  during one callback is an input of the model: one \<open>host\<close> record per callback, with one
  field per API result the callback can read. \<open>GetTimestampNanos\<close> is the value the
  file's function of that name computes from the performance counter (in floating point).
  The last two fields are the engine's answers: whether \<open>WitnessdStartSession\<close> opened a
  session, and the evidence string \<open>WitnessdEndSession\<close> returns (\<open>None\<close> for a null
  pointer).
\<close>

record host =
  GetTimestampNanos :: "64 word"
  CreateFileW_handle :: HANDLE
  WriteFile_success :: bool
  GetKeyboardState_ok :: bool
  ToUnicode_result :: int
  ToUnicode_buffer0 :: wchar
  GetForegroundWindow_hwnd :: HWND
  GetWindowTextW_title :: wstring
  OpenProcess_handle :: HANDLE
  QueryFullProcessImageNameW_ok :: bool
  QueryFullProcessImageNameW_path :: wstring
  WideCharToMultiByte_utf8 :: "wstring \<Rightarrow> string"
  QueryInterface_KeystrokeMgr :: "HRESULT \<times> ptr"
  AdviseKeyEventSink_hr :: HRESULT
  QueryInterface_Source_hr :: HRESULT
  AdviseSink_result :: "HRESULT \<times> DWORD"
  GetTop_result :: "HRESULT \<times> ptr"
  Context_QueryInterface_Source_hr :: HRESULT
  Context_AdviseSink_result :: "HRESULT \<times> DWORD"
  StartSession_ok :: bool
  EndSession_evidence :: "string option"

section \<open>The Witnessd engine behind the exported callbacks\<close>

text \<open>
  The service calls the engine through the \<open>extern "C"\<close> functions declared in
  \<open>tsf_text_service.h\<close> and \<open>witnessd_tsf.h\<close>. The calls are recorded in order; the engine
  keeps the open session, if any.
\<close>

datatype engine_call =
    CallStartSession string string
  | CallEndSession
  | CallFreeString
  | CallOnKeyDown "16 word" int
  | CallOnTextCommit string
  | CallOnTextDelete int
  | CallOnFocusChange string string

record engine =
  session :: "(string \<times> string) option"
  calls :: "engine_call list"

text \<open>
  Modelled from the spec: the bodies of \<open>WitnessdStartSession\<close>, \<open>WitnessdEndSession\<close>,
  \<open>WitnessdHasActiveSession\<close>, \<open>WitnessdFreeString\<close>, \<open>WitnessdOnKeyDown\<close>,
  \<open>WitnessdOnTextCommit\<close>, \<open>WitnessdOnTextDelete\<close> and \<open>WitnessdOnFocusChange\<close> are not
  among the sources (only their declarations and callers are). Following the spec's
  external interface: \<open>startSession(applicationId, documentId)\<close> opens a session for that
  target and may fail; \<open>endSession()\<close> returns an evidence summary or a failure and leaves
  no session open whatever the reply; a session is active from a successful start to the
  next end; key and text events are handed over in call order.
\<close>

definition WitnessdStartSession :: "bool \<Rightarrow> string \<Rightarrow> string \<Rightarrow> engine \<Rightarrow> engine" where
  "WitnessdStartSession ok appID docID e =
     e\<lparr>session := (if ok then Some (appID, docID) else session e),
       calls := calls e @ [CallStartSession appID docID]\<rparr>"

definition WitnessdEndSession :: "string option \<Rightarrow> engine \<Rightarrow> string option \<times> engine" where
  "WitnessdEndSession evidence e =
     (evidence, e\<lparr>session := None, calls := calls e @ [CallEndSession]\<rparr>)"

definition WitnessdHasActiveSession :: "engine \<Rightarrow> bool" where
  "WitnessdHasActiveSession e = (session e \<noteq> None)"

definition WitnessdFreeString :: "engine \<Rightarrow> engine" where
  "WitnessdFreeString e = e\<lparr>calls := calls e @ [CallFreeString]\<rparr>"

definition WitnessdOnKeyDown :: "16 word \<Rightarrow> int \<Rightarrow> engine \<Rightarrow> engine" where
  "WitnessdOnKeyDown vkCode charCode e = e\<lparr>calls := calls e @ [CallOnKeyDown vkCode charCode]\<rparr>"

definition WitnessdOnTextCommit :: "string \<Rightarrow> engine \<Rightarrow> engine" where
  "WitnessdOnTextCommit text e = e\<lparr>calls := calls e @ [CallOnTextCommit text]\<rparr>"

definition WitnessdOnTextDelete :: "int \<Rightarrow> engine \<Rightarrow> engine" where
  "WitnessdOnTextDelete count e = e\<lparr>calls := calls e @ [CallOnTextDelete count]\<rparr>"

definition WitnessdOnFocusChange :: "string \<Rightarrow> string \<Rightarrow> engine \<Rightarrow> engine" where
  "WitnessdOnFocusChange appName docTitle e =
     e\<lparr>calls := calls e @ [CallOnFocusChange appName docTitle]\<rparr>"

definition engine_init :: engine where
  "engine_init = \<lparr>session = None, calls = []\<rparr>"

section \<open>State of the complete text service (tsf_text_service.cpp)\<close>

text \<open>
  The members of \<open>WitnessdTextService\<close> that the modelled methods read or write, the
  file-level \<open>g_hPipe\<close>, the record of what was done to the pipe, and the engine.
  A member \<open>name_\<close> of the class is the field \<open>name\<close> here: an Isabelle constant
  cannot end in an underscore.
\<close>

datatype pipe_event =
    CreateFileW_call HANDLE
  | WriteFile_call HANDLE "byte list" bool
  | CloseHandle_call HANDLE

record world =
  threadMgr :: ptr
  clientId :: DWORD
  activateFlags :: DWORD
  keystrokeMgr :: ptr
  threadMgrEventSinkCookie :: DWORD
  textEditSinkCookie :: DWORD
  currentDocMgr :: ptr
  currentContext :: ptr
  isActivated :: bool
  isEnabled :: bool
  currentAppPath :: wstring
  currentWindowTitle :: wstring
  currentFocusWindow :: HWND
  g_hPipe :: HANDLE
  pipe_io :: "pipe_event list"
  eng :: engine

text \<open>The constructor's member initialisers, with the pipe closed and a fresh engine.\<close>

definition world_init :: world where
  "world_init =
     \<lparr>threadMgr = nullptr, clientId = 0, activateFlags = 0, keystrokeMgr = nullptr,
      threadMgrEventSinkCookie = TF_INVALID_COOKIE, textEditSinkCookie = TF_INVALID_COOKIE,
      currentDocMgr = nullptr, currentContext = nullptr,
      isActivated = False, isEnabled = True,
      currentAppPath = [], currentWindowTitle = [], currentFocusWindow = nullptr,
      g_hPipe = INVALID_HANDLE_VALUE, pipe_io = [], eng = engine_init\<rparr>"

definition SetEnabled :: "bool \<Rightarrow> world \<Rightarrow> world" where
  "SetEnabled enabled w = w\<lparr>isEnabled := enabled\<rparr>"

section \<open>The named pipe\<close>

definition ConnectPipe :: "host \<Rightarrow> world \<Rightarrow> world" where
  "ConnectPipe h w =
     (if g_hPipe w \<noteq> INVALID_HANDLE_VALUE then w
      else w\<lparr>g_hPipe := CreateFileW_handle h,
             pipe_io := pipe_io w @ [CreateFileW_call (CreateFileW_handle h)]\<rparr>)"

definition DisconnectPipe :: "world \<Rightarrow> world" where
  "DisconnectPipe w =
     (if g_hPipe w \<noteq> INVALID_HANDLE_VALUE
      then w\<lparr>pipe_io := pipe_io w @ [CloseHandle_call (g_hPipe w)],
             g_hPipe := INVALID_HANDLE_VALUE\<rparr>
      else w)"

text \<open>
  The message is a struct packed to one byte; \<open>WriteFile\<close> sends its \<open>sizeof(msg)\<close> bytes as
  they lie in memory. Windows runs little-endian on every architecture it supports, so a
  field of \<open>n\<close> bytes lies lowest byte first.
\<close>

record pipe_msg =
  timestamp :: "64 word"
  vkCode :: "16 word"
  scanCode :: "16 word"
  flags :: "32 word"
  isDown :: byte

definition le_bytes :: "nat \<Rightarrow> 'a::len word \<Rightarrow> byte list" where
  "le_bytes n x = map (\<lambda>i. ucast (drop_bit (8 * i) x)) [0..<n]"

definition msg_bytes :: "pipe_msg \<Rightarrow> byte list" where
  "msg_bytes m =
     le_bytes 8 (timestamp m) @ le_bytes 2 (vkCode m) @ le_bytes 2 (scanCode m)
       @ le_bytes 4 (flags m) @ [isDown m]"

definition WritePipe ::
  "host \<Rightarrow> 16 word \<Rightarrow> 16 word \<Rightarrow> 32 word \<Rightarrow> 64 word \<Rightarrow> bool \<Rightarrow> world \<Rightarrow> world" where
  "WritePipe h vk scan fl ts down w =
     (let w1 = (if g_hPipe w = INVALID_HANDLE_VALUE then ConnectPipe h w else w)
      in if g_hPipe w1 = INVALID_HANDLE_VALUE then w1
         else
           let msg = \<lparr>timestamp = ts, vkCode = vk, scanCode = scan, flags = fl,
                      isDown = (if down then 1 else 0)\<rparr>;
               success = WriteFile_success h;
               w2 = w1\<lparr>pipe_io := pipe_io w1 @ [WriteFile_call (g_hPipe w1) (msg_bytes msg) success]\<rparr>
           in if \<not> success then DisconnectPipe w2 else w2)"

text \<open>The bytes of the message that \<open>WritePipe\<close> builds from its arguments.\<close>

definition pipe_frame :: "16 word \<Rightarrow> 16 word \<Rightarrow> 32 word \<Rightarrow> 64 word \<Rightarrow> bool \<Rightarrow> byte list" where
  "pipe_frame vk scan fl ts down =
     msg_bytes \<lparr>timestamp = ts, vkCode = vk, scanCode = scan, flags = fl,
                isDown = (if down then 1 else 0)\<rparr>"

section \<open>Sinks\<close>

text \<open>
  Calls through the host's interface pointers (\<open>AddRef\<close>, \<open>Release\<close>, \<open>QueryInterface\<close>,
  \<open>Advise\<close>, \<open>Unadvise\<close>) act on the host; the model keeps what they return and what the
  service stores. The host hands the service valid interface pointers.
\<close>

definition SetupKeystrokeSink :: "host \<Rightarrow> world \<Rightarrow> HRESULT \<times> world" where
  "SetupKeystrokeSink h w =
     (if threadMgr w = nullptr then (E_FAIL, w)
      else
        let (hr, p) = QueryInterface_KeystrokeMgr h;
            w1 = w\<lparr>keystrokeMgr := p\<rparr>
        in if FAILED hr then (hr, w1)
           else
             let hr2 = AdviseKeyEventSink_hr h
             in if FAILED hr2 then (hr2, w1\<lparr>keystrokeMgr := nullptr\<rparr>)
                else (S_OK, w1))"

definition CleanupKeystrokeSink :: "world \<Rightarrow> world" where
  "CleanupKeystrokeSink w =
     (if keystrokeMgr w \<noteq> nullptr then w\<lparr>keystrokeMgr := nullptr\<rparr> else w)"

definition SetupThreadMgrEventSink :: "host \<Rightarrow> world \<Rightarrow> HRESULT \<times> world" where
  "SetupThreadMgrEventSink h w =
     (if threadMgr w = nullptr then (E_FAIL, w)
      else
        let hr = QueryInterface_Source_hr h
        in if FAILED hr then (hr, w)
           else
             let (hr2, cookie) = AdviseSink_result h
             in (hr2, w\<lparr>threadMgrEventSinkCookie := cookie\<rparr>))"

definition CleanupThreadMgrEventSink :: "world \<Rightarrow> world" where
  "CleanupThreadMgrEventSink w =
     (if threadMgr w \<noteq> nullptr \<and> threadMgrEventSinkCookie w \<noteq> TF_INVALID_COOKIE
      then w\<lparr>threadMgrEventSinkCookie := TF_INVALID_COOKIE\<rparr>
      else w)"

definition SetupTextEditSink :: "host \<Rightarrow> ptr \<Rightarrow> world \<Rightarrow> HRESULT \<times> world" where
  "SetupTextEditSink h pContext w =
     (if pContext = nullptr then (E_INVALIDARG, w)
      else
        let hr = Context_QueryInterface_Source_hr h
        in if FAILED hr then (hr, w)
           else
             let (hr2, cookie) = Context_AdviseSink_result h
             in (hr2, w\<lparr>textEditSinkCookie := cookie\<rparr>))"

definition CleanupTextEditSink :: "ptr \<Rightarrow> world \<Rightarrow> world" where
  "CleanupTextEditSink pContext w =
     (if pContext \<noteq> nullptr \<and> textEditSinkCookie w \<noteq> TF_INVALID_COOKIE
      then w\<lparr>textEditSinkCookie := TF_INVALID_COOKIE\<rparr>
      else w)"

definition SetupSinks :: "host \<Rightarrow> world \<Rightarrow> HRESULT \<times> world" where
  "SetupSinks h w =
     (let (hr, w1) = SetupKeystrokeSink h w
      in if FAILED hr then (hr, w1)
         else
           let (hr2, w2) = SetupThreadMgrEventSink h w1
           in if FAILED hr2 then (hr2, CleanupKeystrokeSink w2)
              else (S_OK, w2))"

definition CleanupSinks :: "world \<Rightarrow> world" where
  "CleanupSinks w =
     (let w1 = CleanupThreadMgrEventSink (CleanupKeystrokeSink w);
          w2 = (if currentContext w1 \<noteq> nullptr
                then (CleanupTextEditSink (currentContext w1) w1)\<lparr>currentContext := nullptr\<rparr>
                else w1)
      in if currentDocMgr w2 \<noteq> nullptr then w2\<lparr>currentDocMgr := nullptr\<rparr> else w2)"

section \<open>Focus information\<close>

text \<open>
  \<open>WideCharToMultiByte_utf8 h wide\<close> is the buffer the conversion fills, terminator
  included; its length is what the sizing call returns, and the empty buffer is the
  conversion reporting 0.
\<close>

definition WideToUTF8 :: "host \<Rightarrow> wstring \<Rightarrow> string" where
  "WideToUTF8 h wide =
     (if wide = [] then []
      else
        let len = int (length (WideCharToMultiByte_utf8 h wide))
        in if len \<le> 0 then []
           else take (nat (len - 1)) (WideCharToMultiByte_utf8 h wide))"

definition UpdateFocusInfo :: "host \<Rightarrow> world \<Rightarrow> world" where
  "UpdateFocusInfo h w =
     (let hwnd = GetForegroundWindow_hwnd h
      in if hwnd = currentFocusWindow w then w
         else
           let w1 = w\<lparr>currentFocusWindow := hwnd\<rparr>
           in if hwnd = nullptr then w1\<lparr>currentAppPath := [], currentWindowTitle := []\<rparr>
              else
                let w2 = w1\<lparr>currentWindowTitle := c_wstr 256 (GetWindowTextW_title h)\<rparr>
                in if OpenProcess_handle h \<noteq> nullptr
                   then (if QueryFullProcessImageNameW_ok h
                         then w2\<lparr>currentAppPath :=
                                    c_wstr MAX_PATH (QueryFullProcessImageNameW_path h)\<rparr>
                         else w2)
                   else w2)"

definition NotifyFocusChange :: "host \<Rightarrow> world \<Rightarrow> world" where
  "NotifyFocusChange h w =
     (let appPath = WideToUTF8 h (currentAppPath w);
          docTitle = WideToUTF8 h (currentWindowTitle w)
      in w\<lparr>eng := WitnessdOnFocusChange appPath docTitle (eng w)\<rparr>)"

section \<open>ITfThreadMgrEventSink: the focus moves to another document\<close>

text \<open>
  The second \<open>OnSetFocus\<close> of the class, the one that takes the document managers.
  \<open>GetTop\<close> stores the context it returns in \<open>currentContext_\<close>.
\<close>

definition OnSetFocus_DocumentMgr :: "host \<Rightarrow> ptr \<Rightarrow> ptr \<Rightarrow> world \<Rightarrow> HRESULT \<times> world" where
  "OnSetFocus_DocumentMgr h pDocMgrFocus pDocMgrPrevFocus w =
     (let w1 = (if currentContext w \<noteq> nullptr
                then (CleanupTextEditSink (currentContext w) w)\<lparr>currentContext := nullptr\<rparr>
                else w);
          w2 = (if currentDocMgr w1 \<noteq> nullptr then w1\<lparr>currentDocMgr := nullptr\<rparr> else w1);
          w3 = (if pDocMgrFocus \<noteq> nullptr
                then
                  let (hr, ctx) = GetTop_result h;
                      w2' = w2\<lparr>currentDocMgr := pDocMgrFocus, currentContext := ctx\<rparr>
                  in if SUCCEEDED hr \<and> ctx \<noteq> nullptr
                     then snd (SetupTextEditSink h ctx w2')
                     else w2'
                else w2)
      in (S_OK, NotifyFocusChange h (UpdateFocusInfo h w3)))"

section \<open>Windows that cannot be resolved\<close>

text \<open>
  The foreground window resolves to neither an application path nor a title: there is no
  foreground window; or the window is a new one whose title reads empty and whose process
  cannot be queried, with no path stored from an earlier window; or the window is the one
  already stored, with nothing stored for it.
\<close>

definition focus_unresolved :: "host \<Rightarrow> world \<Rightarrow> bool" where
  "focus_unresolved h w =
     (if GetForegroundWindow_hwnd h = currentFocusWindow w
      then currentAppPath w = [] \<and> currentWindowTitle w = []
      else if GetForegroundWindow_hwnd h = nullptr then True
      else c_wstr 256 (GetWindowTextW_title h) = [] \<and> currentAppPath w = []
           \<and> (OpenProcess_handle h = nullptr \<or> \<not> QueryFullProcessImageNameW_ok h))"

section \<open>ITfTextInputProcessor: activation and deactivation\<close>

definition Deactivate :: "host \<Rightarrow> world \<Rightarrow> HRESULT \<times> world" where
  "Deactivate h w =
     (if \<not> isActivated w then (S_OK, w)
      else
        let e1 = (if WitnessdHasActiveSession (eng w)
                  then (let (evidence, e) = WitnessdEndSession (EndSession_evidence h) (eng w)
                        in if evidence \<noteq> None then WitnessdFreeString e else e)
                  else eng w);
            w1 = CleanupSinks (w\<lparr>eng := e1\<rparr>);
            w2 = (if threadMgr w1 \<noteq> nullptr then w1\<lparr>threadMgr := nullptr\<rparr> else w1)
        in (S_OK, w2\<lparr>clientId := 0, isActivated := False\<rparr>))"

definition ActivateEx :: "host \<Rightarrow> ptr \<Rightarrow> DWORD \<Rightarrow> DWORD \<Rightarrow> world \<Rightarrow> HRESULT \<times> world" where
  "ActivateEx h pThreadMgr tfClientId dwFlags w =
     (if isActivated w then (S_OK, w)
      else
        let w1 = w\<lparr>threadMgr := pThreadMgr, clientId := tfClientId, activateFlags := dwFlags\<rparr>;
            (hr, w2) = SetupSinks h w1
        in if FAILED hr then (hr, snd (Deactivate h w2))
           else
             let w3 = UpdateFocusInfo h w2;
                 appId = WideToUTF8 h (currentAppPath w3);
                 docId = WideToUTF8 h (currentWindowTitle w3);
                 appId' = (if appId = [] then ''windows.tsf'' else appId);
                 docId' = (if docId = [] then ''default'' else docId);
                 w4 = w3\<lparr>eng := WitnessdStartSession (StartSession_ok h) appId' docId' (eng w3)\<rparr>
             in (S_OK, w4\<lparr>isActivated := True\<rparr>))"

definition Activate :: "host \<Rightarrow> ptr \<Rightarrow> DWORD \<Rightarrow> world \<Rightarrow> HRESULT \<times> world" where
  "Activate h pThreadMgr tfClientId w = ActivateEx h pThreadMgr tfClientId 0 w"

section \<open>ITfKeyEventSink\<close>

text \<open>
  A key callback returns its \<open>HRESULT\<close>, the value it stores in \<open>*pfEaten\<close> and the new
  state. \<open>(lParam >> 16) & 0xFF\<close> shifts the signed \<open>LPARAM\<close> arithmetically.
\<close>

definition OnSetFocus :: "host \<Rightarrow> bool \<Rightarrow> world \<Rightarrow> HRESULT \<times> world" where
  "OnSetFocus h fForeground w = (S_OK, UpdateFocusInfo h w)"

definition OnTestKeyDown :: "WPARAM \<Rightarrow> LPARAM \<Rightarrow> world \<Rightarrow> HRESULT \<times> bool \<times> world" where
  "OnTestKeyDown wParam lParam w = (S_OK, False, w)"

definition OnTestKeyUp :: "WPARAM \<Rightarrow> LPARAM \<Rightarrow> world \<Rightarrow> HRESULT \<times> bool \<times> world" where
  "OnTestKeyUp wParam lParam w = (S_OK, False, w)"

definition VKToChar :: "host \<Rightarrow> WPARAM \<Rightarrow> LPARAM \<Rightarrow> int" where
  "VKToChar h vk lParam =
     (if \<not> GetKeyboardState_ok h then 0
      else if ToUnicode_result h = 1 then uint (ToUnicode_buffer0 h)
      else 0)"

definition lparam_scan :: "LPARAM \<Rightarrow> 16 word" where
  "lparam_scan lParam = ucast (signed_drop_bit 16 lParam AND 0xFF)"

definition OnKeyDown :: "host \<Rightarrow> WPARAM \<Rightarrow> LPARAM \<Rightarrow> world \<Rightarrow> HRESULT \<times> bool \<times> world" where
  "OnKeyDown h wParam lParam w =
     (if \<not> isEnabled w then (S_OK, False, w)
      else
        let ts = GetTimestampNanos h;
            w1 = WritePipe h (ucast wParam) (lparam_scan lParam) (ucast lParam) ts True w;
            charCode = VKToChar h wParam lParam;
            e1 = WitnessdOnKeyDown (ucast wParam) charCode (eng w1);
            e2 = (if 0x20 \<le> charCode \<and> charCode \<le> 0x7E
                  then WitnessdOnTextCommit [char_of charCode] e1 else e1);
            e3 = (if wParam = VK_BACK then WitnessdOnTextDelete 1 e2 else e2)
        in (S_OK, False, w1\<lparr>eng := e3\<rparr>))"

definition OnKeyUp :: "host \<Rightarrow> WPARAM \<Rightarrow> LPARAM \<Rightarrow> world \<Rightarrow> HRESULT \<times> bool \<times> world" where
  "OnKeyUp h wParam lParam w =
     (if \<not> isEnabled w then (S_OK, False, w)
      else
        let ts = GetTimestampNanos h
        in (S_OK, False,
            WritePipe h (ucast wParam) (lparam_scan lParam) (ucast lParam) ts False w))"

definition OnPreservedKey :: "world \<Rightarrow> HRESULT \<times> bool \<times> world" where
  "OnPreservedKey w = (S_OK, False, w)"

section \<open>The basic text service (witnessd_tsf.cpp)\<close>

text \<open>
  The basic service's key callbacks touch no member; they act on the engine alone.
\<close>

definition VKToChar_basic :: "host \<Rightarrow> WPARAM \<Rightarrow> LPARAM \<Rightarrow> int" where
  "VKToChar_basic h vk lParam =
     (if \<not> GetKeyboardState_ok h then 0
      else if ToUnicode_result h = 1 then uint (ToUnicode_buffer0 h)
      else 0)"

definition OnKeyDown_basic :: "host \<Rightarrow> WPARAM \<Rightarrow> LPARAM \<Rightarrow> engine \<Rightarrow> HRESULT \<times> bool \<times> engine" where
  "OnKeyDown_basic h wParam lParam e =
     (let charCode = VKToChar_basic h wParam lParam;
          e1 = WitnessdOnKeyDown (ucast wParam) charCode e;
          e2 = (if 0x20 \<le> charCode \<and> charCode \<le> 0x7E
                then WitnessdOnTextCommit [char_of charCode] e1 else e1)
      in (S_OK, False, e2))"

section \<open>Sequences of host callbacks\<close>

text \<open>
  The host drives the service through its public methods, each with the host's answers for
  that call. \<open>run\<close> applies a finite sequence of them in order.
\<close>

datatype host_call =
    DoActivate host ptr DWORD
  | DoActivateEx host ptr DWORD DWORD
  | DoDeactivate host
  | DoSetEnabled bool
  | DoOnSetFocus host bool
  | DoOnSetFocus_DocumentMgr host ptr ptr
  | DoOnTestKeyDown WPARAM LPARAM
  | DoOnTestKeyUp WPARAM LPARAM
  | DoOnKeyDown host WPARAM LPARAM
  | DoOnKeyUp host WPARAM LPARAM
  | DoOnPreservedKey

fun step :: "host_call \<Rightarrow> world \<Rightarrow> world" where
  "step (DoActivate h p c) w = snd (Activate h p c w)"
| "step (DoActivateEx h p c f) w = snd (ActivateEx h p c f w)"
| "step (DoDeactivate h) w = snd (Deactivate h w)"
| "step (DoSetEnabled b) w = SetEnabled b w"
| "step (DoOnSetFocus h b) w = snd (OnSetFocus h b w)"
| "step (DoOnSetFocus_DocumentMgr h p q) w = snd (OnSetFocus_DocumentMgr h p q w)"
| "step (DoOnTestKeyDown wp lp) w = snd (snd (OnTestKeyDown wp lp w))"
| "step (DoOnTestKeyUp wp lp) w = snd (snd (OnTestKeyUp wp lp w))"
| "step (DoOnKeyDown h wp lp) w = snd (snd (OnKeyDown h wp lp w))"
| "step (DoOnKeyUp h wp lp) w = snd (snd (OnKeyUp h wp lp w))"
| "step DoOnPreservedKey w = snd (snd (OnPreservedKey w))"

fun run :: "host_call list \<Rightarrow> world \<Rightarrow> world" where
  "run [] w = w"
| "run (c # cs) w = run cs (step c w)"

text \<open>
  The engine has a session open only while the service is activated: what holds of every
  state the host can drive the service into.
\<close>

definition session_implies_activated :: "world \<Rightarrow> bool" where
  "session_implies_activated w = (WitnessdHasActiveSession (eng w) \<longrightarrow> isActivated w)"

text \<open>What a call added to the two records kept in the state.\<close>

definition new_pipe_io :: "world \<Rightarrow> world \<Rightarrow> pipe_event list" where
  "new_pipe_io w w' = drop (length (pipe_io w)) (pipe_io w')"

definition new_calls :: "engine \<Rightarrow> engine \<Rightarrow> engine_call list" where
  "new_calls e e' = drop (length (calls e)) (calls e')"

fun is_connect :: "pipe_event \<Rightarrow> bool" where
  "is_connect (CreateFileW_call r) = True"
| "is_connect (WriteFile_call hp bs ok) = False"
| "is_connect (CloseHandle_call hp) = False"

fun is_write :: "pipe_event \<Rightarrow> bool" where
  "is_write (CreateFileW_call r) = False"
| "is_write (WriteFile_call hp bs ok) = True"
| "is_write (CloseHandle_call hp) = False"

fun is_text_call :: "engine_call \<Rightarrow> bool" where
  "is_text_call (CallOnTextCommit t) = True"
| "is_text_call (CallOnTextDelete n) = True"
| "is_text_call (CallStartSession a d) = False"
| "is_text_call CallEndSession = False"
| "is_text_call CallFreeString = False"
| "is_text_call (CallOnKeyDown vk ch) = False"
| "is_text_call (CallOnFocusChange a d) = False"

text \<open>The callbacks that send a keystroke frame.\<close>

fun is_key_event :: "host_call \<Rightarrow> bool" where
  "is_key_event (DoOnKeyDown h wp lp) = True"
| "is_key_event (DoOnKeyUp h wp lp) = True"
| "is_key_event (DoActivate h p c) = False"
| "is_key_event (DoActivateEx h p c f) = False"
| "is_key_event (DoDeactivate h) = False"
| "is_key_event (DoSetEnabled b) = False"
| "is_key_event (DoOnSetFocus h b) = False"
| "is_key_event (DoOnSetFocus_DocumentMgr h p q) = False"
| "is_key_event (DoOnTestKeyDown wp lp) = False"
| "is_key_event (DoOnTestKeyUp wp lp) = False"
| "is_key_event DoOnPreservedKey = False"

section \<open>The keystroke frame as the spec lays it out\<close>

text \<open>
  The spec's \<open>KeystrokeEvent\<close> and the decoder that its 17-byte layout
  \<open>timestampNanos:i64 | virtualKeyCode:u16 | scanCode:u16 | flags:u32 | isKeyDown:u8\<close>
  describes, little-endian. The daemon's own decoder is not among the sources; this one
  follows the spec's words and is what the frames written by \<open>WritePipe\<close> are compared with.
\<close>

record keystroke_event =
  timestampNanos :: "64 word"
  virtualKeyCode :: "16 word"
  scanCodeOf :: "16 word"
  flagsOf :: "32 word"
  isKeyDown :: bool

fun le_word :: "byte list \<Rightarrow> 'a::len word" where
  "le_word [] = 0"
| "le_word (b # bs) = ucast b OR push_bit 8 (le_word bs)"

definition spec_decode_frame :: "byte list \<Rightarrow> keystroke_event option" where
  "spec_decode_frame bs =
     (if length bs \<noteq> 17 then None
      else Some \<lparr>timestampNanos = le_word (take 8 bs),
                 virtualKeyCode = le_word (take 2 (drop 8 bs)),
                 scanCodeOf = le_word (take 2 (drop 10 bs)),
                 flagsOf = le_word (take 4 (drop 12 bs)),
                 isKeyDown = (bs ! 16 \<noteq> 0)\<rparr>)"

section \<open>The runner's UTF-16 to UTF-8 conversion (utils.cpp)\<close>

text \<open>
  \<open>Utf8FromUtf16\<close> calls \<open>WideCharToMultiByte\<close> twice, once for the size and once to
  convert, and resizes a \<open>std::string\<close> in between. The answers of the two calls and
  whether the allocation behind \<open>resize\<close> succeeds are inputs. \<open>std::string::max_size()\<close>
  belongs to the standard library the runner is built with, so it is a parameter. The
  result is the length \<open>resize\<close> was called with, if it was called, and the string
  returned, if the function returned (\<open>resize\<close> throws when the allocation fails).
\<close>

record conv_host =
  WideCharToMultiByte_size :: "wstring \<Rightarrow> int"
  WideCharToMultiByte_converted :: "wstring \<Rightarrow> int"
  WideCharToMultiByte_output :: "wstring \<Rightarrow> string"
  resize_succeeds :: bool

definition Utf8FromUtf16 :: "nat \<Rightarrow> conv_host \<Rightarrow> wstring option \<Rightarrow> nat option \<times> string option" where
  "Utf8FromUtf16 max_size h utf16_string =
     (case utf16_string of
        None \<Rightarrow> (None, Some [])
      | Some s \<Rightarrow>
          let target_length = (word_of_int (WideCharToMultiByte_size h s - 1) :: 32 word)
          in if target_length = 0 \<or> unat target_length > max_size then (None, Some [])
             else if \<not> resize_succeeds h then (Some (unat target_length), None)
             else if WideCharToMultiByte_converted h s = 0
                  then (Some (unat target_length), Some [])
                  else (Some (unat target_length), Some (WideCharToMultiByte_output h s)))"

text \<open>\<open>max_size()\<close> of \<open>std::string\<close> with a 64-bit \<open>size_t\<close> and with a 32-bit one.\<close>

definition max_size_64 :: nat where
  "max_size_64 = 2 ^ 63 - 1"

definition max_size_32 :: nat where
  "max_size_32 = 2 ^ 31 - 1"

section \<open>Concrete hosts and inputs\<close>

text \<open>
  A host on which everything succeeds: the pipe opens as handle \<open>0x1F4\<close>, writes go
  through, the keyboard layout translates the key to \<open>a\<close>, the foreground window
  \<open>0x20A\<close> has the title \<open>doc1\<close> and belongs to the process image \<open>app.x\<close>, and the
  conversion to UTF-8 maps each (ASCII) unit to one byte and appends the terminator.
\<close>

definition ascii_utf8 :: "wstring \<Rightarrow> string" where
  "ascii_utf8 wide = map (\<lambda>c. char_of (unat c)) wide @ [char_of (0 :: nat)]"

definition host_good :: host where
  "host_good =
     \<lparr>GetTimestampNanos = 1234567890,
      CreateFileW_handle = 0x1F4,
      WriteFile_success = True,
      GetKeyboardState_ok = True,
      ToUnicode_result = 1,
      ToUnicode_buffer0 = 0x61,
      GetForegroundWindow_hwnd = 0x20A,
      GetWindowTextW_title = [0x64, 0x6F, 0x63, 0x31],
      OpenProcess_handle = 0x300,
      QueryFullProcessImageNameW_ok = True,
      QueryFullProcessImageNameW_path = [0x61, 0x70, 0x70, 0x2E, 0x78],
      WideCharToMultiByte_utf8 = ascii_utf8,
      QueryInterface_KeystrokeMgr = (S_OK, 0x4000),
      AdviseKeyEventSink_hr = S_OK,
      QueryInterface_Source_hr = S_OK,
      AdviseSink_result = (S_OK, 7),
      GetTop_result = (S_OK, 0x6000),
      Context_QueryInterface_Source_hr = S_OK,
      Context_AdviseSink_result = (S_OK, 9),
      StartSession_ok = True,
      EndSession_evidence = Some ''{}''\<rparr>"

text \<open>The same host when the key pressed is Backspace, which the layout translates to \<open>0x08\<close>.\<close>

definition host_backspace :: host where
  "host_backspace = host_good\<lparr>ToUnicode_buffer0 := 0x08\<rparr>"

text \<open>
  The same host with no foreground window; with a foreground window that has no title
  and whose process cannot be opened; and with no daemon listening on the pipe.
\<close>

definition host_no_window :: host where
  "host_no_window = host_good\<lparr>GetForegroundWindow_hwnd := nullptr\<rparr>"

definition host_unresolved :: host where
  "host_unresolved = host_good\<lparr>GetWindowTextW_title := [], OpenProcess_handle := nullptr\<rparr>"

definition host_no_daemon :: host where
  "host_no_daemon = host_good\<lparr>CreateFileW_handle := INVALID_HANDLE_VALUE\<rparr>"

definition host_write_fails :: host where
  "host_write_fails = host_good\<lparr>WriteFile_success := False\<rparr>"

text \<open>
  The \<open>lParam\<close> of a first press of the key with scan code \<open>0x1E\<close> (repeat count 1), and
  of Backspace (scan code \<open>0x0E\<close>).
\<close>

definition lparam_A :: LPARAM where
  "lparam_A = 0x1E0001"

definition lparam_back :: LPARAM where
  "lparam_back = 0x0E0001"

text \<open>
  A conversion that reports failure in the sizing call (as \<open>WC_ERR_INVALID_CHARS\<close> makes it
  do on an unpaired surrogate), with the allocation succeeding, and one that converts.
\<close>

definition conv_fails :: conv_host where
  "conv_fails =
     \<lparr>WideCharToMultiByte_size = (\<lambda>s. 0),
      WideCharToMultiByte_converted = (\<lambda>s. 0),
      WideCharToMultiByte_output = (\<lambda>s. []),
      resize_succeeds = True\<rparr>"

definition conv_ascii :: conv_host where
  "conv_ascii =
     \<lparr>WideCharToMultiByte_size = (\<lambda>s. int (length s) + 1),
      WideCharToMultiByte_converted = (\<lambda>s. int (length s)),
      WideCharToMultiByte_output = (\<lambda>s. map (\<lambda>c. char_of (unat c)) s),
      resize_succeeds = True\<rparr>"

section \<open>Little-endian bytes\<close>

lemma length_le_bytes: "length (le_bytes n x) = n"
  by (simp add: le_bytes_def)

lemma le_word_slice:
  "(le_word (map (\<lambda>i. ucast (drop_bit (8 * i) x)) [k..<k + n]) :: 'a::len word)
     = take_bit (8 * n) (drop_bit (8 * k) (x :: 'a word))"
proof (induction n arbitrary: k)
  case 0
  show ?case by simp
next
  case (Suc n)
  have unroll: "[k..<k + Suc n] = k # [Suc k..<Suc k + n]"
    by (simp add: upt_rec)
  have ih: "(le_word (map (\<lambda>i. ucast (drop_bit (8 * i) x)) [Suc k..<Suc k + n]) :: 'a word)
      = take_bit (8 * n) (drop_bit (8 * Suc k) x)"
    by (rule Suc.IH)
  show ?case
    unfolding unroll list.map le_word.simps ih
  proof (rule bit_word_eqI)
    fix i assume len: "i < LENGTH('a)"
    show "bit (ucast (ucast (drop_bit (8 * k) x) :: byte) OR
            push_bit 8 (take_bit (8 * n) (drop_bit (8 * Suc k) x))) i
        = bit (take_bit (8 * Suc n) (drop_bit (8 * k) x)) i"
    proof (cases "i < 8")
      case True
      with len show ?thesis by (simp add: bit_simps)
    next
      case False
      then have "8 + (i - 8) = i" by simp
      with False len show ?thesis
        by (auto simp add: bit_simps add.assoc)
    qed
  qed
qed

lemma le_word_le_bytes:
  assumes "LENGTH('a::len) \<le> 8 * n"
  shows "le_word (le_bytes n (x :: 'a word)) = x"
proof -
  have "(le_word (le_bytes n x) :: 'a word) = take_bit (8 * n) (drop_bit (8 * 0) x)"
    unfolding le_bytes_def using le_word_slice [of x 0 n] by simp
  also have "\<dots> = x"
    using assms by (simp add: take_bit_word_eq_self)
  finally show ?thesis .
qed

lemma length_msg_bytes: "length (msg_bytes m) = 17"
  by (simp add: msg_bytes_def length_le_bytes)

lemma decode_msg_bytes:
  "spec_decode_frame (msg_bytes m) =
     Some \<lparr>timestampNanos = timestamp m, virtualKeyCode = vkCode m, scanCodeOf = scanCode m,
           flagsOf = flags m, isKeyDown = (isDown m \<noteq> 0)\<rparr>"
proof -
  have t: "take 8 (msg_bytes m) = le_bytes 8 (timestamp m)"
    by (simp add: msg_bytes_def length_le_bytes)
  have v: "take 2 (drop 8 (msg_bytes m)) = le_bytes 2 (vkCode m)"
    by (simp add: msg_bytes_def length_le_bytes)
  have s: "take 2 (drop 10 (msg_bytes m)) = le_bytes 2 (scanCode m)"
    by (simp add: msg_bytes_def length_le_bytes)
  have f: "take 4 (drop 12 (msg_bytes m)) = le_bytes 4 (flags m)"
    by (simp add: msg_bytes_def length_le_bytes)
  have d: "msg_bytes m ! 16 = isDown m"
    by (simp add: msg_bytes_def length_le_bytes nth_append)
  show ?thesis
    unfolding spec_decode_frame_def t v s f d
    by (simp add: length_msg_bytes le_word_le_bytes)
qed

section \<open>What one send does to the pipe\<close>

lemma WritePipe_connected:
  assumes "g_hPipe w \<noteq> INVALID_HANDLE_VALUE"
  shows "WritePipe h vk sc fl ts down w =
     (if WriteFile_success h
      then w\<lparr>pipe_io := pipe_io w @ [WriteFile_call (g_hPipe w) (pipe_frame vk sc fl ts down) True]\<rparr>
      else w\<lparr>pipe_io := pipe_io w @ [WriteFile_call (g_hPipe w) (pipe_frame vk sc fl ts down) False,
                                     CloseHandle_call (g_hPipe w)],
             g_hPipe := INVALID_HANDLE_VALUE\<rparr>)"
  using assms by (simp add: WritePipe_def DisconnectPipe_def pipe_frame_def Let_def)

lemma WritePipe_disconnected:
  assumes "g_hPipe w = INVALID_HANDLE_VALUE"
  shows "WritePipe h vk sc fl ts down w =
     (if CreateFileW_handle h = INVALID_HANDLE_VALUE
      then w\<lparr>g_hPipe := INVALID_HANDLE_VALUE,
             pipe_io := pipe_io w @ [CreateFileW_call (CreateFileW_handle h)]\<rparr>
      else if WriteFile_success h
      then w\<lparr>g_hPipe := CreateFileW_handle h,
             pipe_io := pipe_io w @ [CreateFileW_call (CreateFileW_handle h),
               WriteFile_call (CreateFileW_handle h) (pipe_frame vk sc fl ts down) True]\<rparr>
      else w\<lparr>pipe_io := pipe_io w @ [CreateFileW_call (CreateFileW_handle h),
               WriteFile_call (CreateFileW_handle h) (pipe_frame vk sc fl ts down) False,
               CloseHandle_call (CreateFileW_handle h)],
             g_hPipe := INVALID_HANDLE_VALUE\<rparr>)"
  using assms by (simp add: WritePipe_def ConnectPipe_def DisconnectPipe_def pipe_frame_def Let_def)

lemma WritePipe_eng: "eng (WritePipe h vk sc fl ts down w) = eng w"
  by (cases "g_hPipe w = INVALID_HANDLE_VALUE")
     (simp_all add: WritePipe_connected WritePipe_disconnected)

lemma WritePipe_new_io:
  "new_pipe_io w (WritePipe h vk sc fl ts down w) =
     (if g_hPipe w = INVALID_HANDLE_VALUE then [CreateFileW_call (CreateFileW_handle h)] else [])
     @ (if g_hPipe (ConnectPipe h w) = INVALID_HANDLE_VALUE then []
        else WriteFile_call (g_hPipe (ConnectPipe h w)) (pipe_frame vk sc fl ts down)
               (WriteFile_success h)
             # (if WriteFile_success h then [] else [CloseHandle_call (g_hPipe (ConnectPipe h w))]))"
  by (cases "g_hPipe w = INVALID_HANDLE_VALUE")
     (simp_all add: WritePipe_connected WritePipe_disconnected new_pipe_io_def ConnectPipe_def)

lemma WritePipe_handle:
  "g_hPipe (WritePipe h vk sc fl ts down w) =
     (if g_hPipe (ConnectPipe h w) \<noteq> INVALID_HANDLE_VALUE \<and> WriteFile_success h
      then g_hPipe (ConnectPipe h w) else INVALID_HANDLE_VALUE)"
  by (cases "g_hPipe w = INVALID_HANDLE_VALUE")
     (simp_all add: WritePipe_connected WritePipe_disconnected ConnectPipe_def)

lemma example_frame:
  "pipe_frame 0x41 0x1E 0 1234567890 True =
     [0xD2, 0x02, 0x96, 0x49, 0, 0, 0, 0, 0x41, 0, 0x1E, 0, 0, 0, 0, 0, 1]"
  by (simp add: pipe_frame_def msg_bytes_def le_bytes_def upt_rec)

section \<open>The keystroke frame\<close>

text \<open>
  Claim C2. The frame that \<open>WritePipe\<close> hands to \<open>WriteFile\<close> for a keystroke is the
  timestamp in 8 bytes, the virtual key in 2, the scan code in 2, the flags in 4 and the
  key-down byte, each lowest byte first: 17 bytes. Decoding it by the spec's layout gives
  back the timestamp, key, scan code, flags and key-down flag it was built from. Whenever
  the pipe is connected, or the connection attempt succeeds, that frame is the one payload
  written. For the event with timestamp 1234567890, key \<open>0x41\<close>, scan code \<open>0x1E\<close>, flags 0
  and key-down set, the frame is \<open>D2 02 96 49 00 00 00 00 41 00 1E 00 00 00 00 00 01\<close> and
  decodes to that event.
\<close>

theorem keystroke_frame_roundtrip:
  "pipe_frame vk sc fl ts down =
      le_bytes 8 ts @ le_bytes 2 vk @ le_bytes 2 sc @ le_bytes 4 fl @ [if down then 1 else 0]
   \<and> length (pipe_frame vk sc fl ts down) = 17
   \<and> spec_decode_frame (pipe_frame vk sc fl ts down) =
       Some \<lparr>timestampNanos = ts, virtualKeyCode = vk, scanCodeOf = sc, flagsOf = fl,
             isKeyDown = down\<rparr>
   \<and> filter is_write (new_pipe_io w (WritePipe h vk sc fl ts down w)) =
       (if g_hPipe (ConnectPipe h w) = INVALID_HANDLE_VALUE then []
        else [WriteFile_call (g_hPipe (ConnectPipe h w)) (pipe_frame vk sc fl ts down)
                (WriteFile_success h)])
   \<and> pipe_frame 0x41 0x1E 0 1234567890 True =
       [0xD2, 0x02, 0x96, 0x49, 0, 0, 0, 0, 0x41, 0, 0x1E, 0, 0, 0, 0, 0, 1]
   \<and> spec_decode_frame [0xD2, 0x02, 0x96, 0x49, 0, 0, 0, 0, 0x41, 0, 0x1E, 0, 0, 0, 0, 0, 1] =
       Some \<lparr>timestampNanos = 1234567890, virtualKeyCode = 0x41, scanCodeOf = 0x1E,
             flagsOf = 0, isKeyDown = True\<rparr>"
proof -
  have layout: "pipe_frame vk sc fl ts down =
      le_bytes 8 ts @ le_bytes 2 vk @ le_bytes 2 sc @ le_bytes 4 fl @ [if down then 1 else 0]"
    by (simp add: pipe_frame_def msg_bytes_def)
  have len: "length (pipe_frame vk sc fl ts down) = 17"
    by (simp add: pipe_frame_def length_msg_bytes)
  have dec: "\<And>vk sc fl ts down. spec_decode_frame (pipe_frame vk sc fl ts down) =
       Some \<lparr>timestampNanos = ts, virtualKeyCode = vk, scanCodeOf = sc, flagsOf = fl,
             isKeyDown = down\<rparr>"
    by (simp add: pipe_frame_def decode_msg_bytes)
  have wr: "filter is_write (new_pipe_io w (WritePipe h vk sc fl ts down w)) =
       (if g_hPipe (ConnectPipe h w) = INVALID_HANDLE_VALUE then []
        else [WriteFile_call (g_hPipe (ConnectPipe h w)) (pipe_frame vk sc fl ts down)
                (WriteFile_success h)])"
    by (simp add: WritePipe_new_io)
  have ex: "spec_decode_frame [0xD2, 0x02, 0x96, 0x49, 0, 0, 0, 0, 0x41, 0, 0x1E, 0, 0, 0, 0, 0, 1] =
       Some \<lparr>timestampNanos = 1234567890, virtualKeyCode = 0x41, scanCodeOf = 0x1E,
             flagsOf = 0, isKeyDown = True\<rparr>"
    using dec [of "0x41" "0x1E" 0 1234567890 True] by (simp only: example_frame)
  from layout len dec wr example_frame ex show ?thesis by blast
qed

section \<open>What a key callback hands on\<close>

lemma new_calls_append: "calls e' = calls e @ xs \<Longrightarrow> new_calls e e' = xs"
  by (simp add: new_calls_def)

lemma new_calls_same: "new_calls e e = []"
  by (simp add: new_calls_def)

lemma new_pipe_io_same: "new_pipe_io w w = []"
  by (simp add: new_pipe_io_def)

lemma OnKeyDown_disabled: "\<not> isEnabled w \<Longrightarrow> OnKeyDown h wParam lParam w = (S_OK, False, w)"
  by (simp add: OnKeyDown_def)

lemma OnKeyUp_disabled: "\<not> isEnabled w \<Longrightarrow> OnKeyUp h wParam lParam w = (S_OK, False, w)"
  by (simp add: OnKeyUp_def)

lemma OnKeyDown_calls:
  assumes "isEnabled w"
  shows "calls (eng (snd (snd (OnKeyDown h wParam lParam w)))) =
     calls (eng w) @ CallOnKeyDown (ucast wParam) (VKToChar h wParam lParam)
       # (if 0x20 \<le> VKToChar h wParam lParam \<and> VKToChar h wParam lParam \<le> 0x7E
          then [CallOnTextCommit [char_of (VKToChar h wParam lParam)]] else [])
       @ (if wParam = VK_BACK then [CallOnTextDelete 1] else [])"
  using assms
  by (simp add: OnKeyDown_def Let_def WritePipe_eng WitnessdOnKeyDown_def
      WitnessdOnTextCommit_def WitnessdOnTextDelete_def)

lemma OnKeyDown_new_calls:
  assumes "isEnabled w"
  shows "new_calls (eng w) (eng (snd (snd (OnKeyDown h wParam lParam w)))) =
     CallOnKeyDown (ucast wParam) (VKToChar h wParam lParam)
       # (if 0x20 \<le> VKToChar h wParam lParam \<and> VKToChar h wParam lParam \<le> 0x7E
          then [CallOnTextCommit [char_of (VKToChar h wParam lParam)]] else [])
       @ (if wParam = VK_BACK then [CallOnTextDelete 1] else [])"
  by (rule new_calls_append) (simp add: OnKeyDown_calls [OF assms])

lemma OnKeyDown_basic_new_calls:
  "new_calls e (snd (snd (OnKeyDown_basic h wParam lParam e))) =
     CallOnKeyDown (ucast wParam) (VKToChar_basic h wParam lParam)
       # (if 0x20 \<le> VKToChar_basic h wParam lParam \<and> VKToChar_basic h wParam lParam \<le> 0x7E
          then [CallOnTextCommit [char_of (VKToChar_basic h wParam lParam)]] else [])"
  by (rule new_calls_append)
     (simp add: OnKeyDown_basic_def Let_def WitnessdOnKeyDown_def WitnessdOnTextCommit_def)

lemma VKToChar_basic_eq: "VKToChar_basic h vk lParam = VKToChar h vk lParam"
  by (simp add: VKToChar_basic_def VKToChar_def)

lemma OnKeyDown_pipe:
  assumes "isEnabled w"
  shows "pipe_io (snd (snd (OnKeyDown h wParam lParam w))) =
           pipe_io (WritePipe h (ucast wParam) (lparam_scan lParam) (ucast lParam)
                      (GetTimestampNanos h) True w)"
    and "g_hPipe (snd (snd (OnKeyDown h wParam lParam w))) =
           g_hPipe (WritePipe h (ucast wParam) (lparam_scan lParam) (ucast lParam)
                      (GetTimestampNanos h) True w)"
  using assms by (simp_all add: OnKeyDown_def Let_def)

lemma OnKeyDown_new_pipe_io:
  assumes "isEnabled w"
  shows "new_pipe_io w (snd (snd (OnKeyDown h wParam lParam w))) =
           new_pipe_io w (WritePipe h (ucast wParam) (lparam_scan lParam) (ucast lParam)
                      (GetTimestampNanos h) True w)"
  by (simp add: new_pipe_io_def OnKeyDown_pipe [OF assms])

lemma OnKeyUp_enabled:
  assumes "isEnabled w"
  shows "snd (snd (OnKeyUp h wParam lParam w)) =
           WritePipe h (ucast wParam) (lparam_scan lParam) (ucast lParam)
                      (GetTimestampNanos h) False w"
  using assms by (simp add: OnKeyUp_def Let_def)

lemma char_of_a: "char_of (97 :: int) = CHR ''a''"
  by (simp add: char_of_def)

section \<open>Key callbacks never consume a key\<close>

text \<open>
  Claim C10. Each of \<open>OnTestKeyDown\<close>, \<open>OnTestKeyUp\<close>, \<open>OnKeyDown\<close>, \<open>OnKeyUp\<close> and
  \<open>OnPreservedKey\<close> stores \<open>FALSE\<close> in \<open>*pfEaten\<close> and returns \<open>S_OK\<close>, which is not a
  failure code, in every state, for every key and whatever the host answers.
\<close>

theorem key_callbacks_never_eat:
  "fst (OnTestKeyDown wParam lParam w) = S_OK \<and> fst (snd (OnTestKeyDown wParam lParam w)) = False
   \<and> fst (OnTestKeyUp wParam lParam w) = S_OK \<and> fst (snd (OnTestKeyUp wParam lParam w)) = False
   \<and> fst (OnKeyDown h wParam lParam w) = S_OK \<and> fst (snd (OnKeyDown h wParam lParam w)) = False
   \<and> fst (OnKeyUp h wParam lParam w) = S_OK \<and> fst (snd (OnKeyUp h wParam lParam w)) = False
   \<and> fst (OnPreservedKey w) = S_OK \<and> fst (snd (OnPreservedKey w)) = False
   \<and> \<not> FAILED S_OK"
  by (simp add: OnTestKeyDown_def OnTestKeyUp_def OnKeyDown_def OnKeyUp_def OnPreservedKey_def
      Let_def FAILED_def S_OK_def)

section \<open>From a key to text events\<close>

text \<open>
  Claim C5. When \<open>OnKeyDown\<close> processes a key (the service is enabled), the text events it
  hands to the engine are: a commit of the translated character exactly when that
  character lies in \<open>0x20\<close> to \<open>0x7E\<close>, followed by a delete of one exactly when the key is
  \<open>VK_BACK\<close>; any other key yields no text event.
\<close>

theorem key_to_text_mapping:
  assumes "isEnabled w"
  shows "filter is_text_call (new_calls (eng w) (eng (snd (snd (OnKeyDown h wParam lParam w))))) =
     (if 0x20 \<le> VKToChar h wParam lParam \<and> VKToChar h wParam lParam \<le> 0x7E
      then [CallOnTextCommit [char_of (VKToChar h wParam lParam)]] else [])
     @ (if wParam = VK_BACK then [CallOnTextDelete 1] else [])"
  by (simp add: OnKeyDown_new_calls [OF assms])

theorem key_to_text_mapping_witness:
  "isEnabled world_init
   \<and> filter is_text_call
       (new_calls (eng world_init) (eng (snd (snd (OnKeyDown host_good 0x41 lparam_A world_init)))))
     = [CallOnTextCommit ''a'']
   \<and> filter is_text_call
       (new_calls (eng world_init)
          (eng (snd (snd (OnKeyDown host_backspace VK_BACK lparam_back world_init)))))
     = [CallOnTextDelete 1]
   \<and> filter is_text_call
       (new_calls (eng world_init)
          (eng (snd (snd (OnKeyDown (host_good\<lparr>ToUnicode_result := 0\<rparr>) 0x70 0x3B0001 world_init)))))
     = []"
  using key_to_text_mapping [of world_init host_good "0x41" lparam_A]
    key_to_text_mapping [of world_init host_backspace VK_BACK lparam_back]
    key_to_text_mapping [of world_init "host_good\<lparr>ToUnicode_result := 0\<rparr>" "0x70" "0x3B0001"]
  by (simp add: world_init_def host_good_def host_backspace_def VKToChar_def VK_BACK_def
      char_of_a)

section \<open>The basic and the complete service\<close>

text \<open>
  Claim C8, as stated, fails: for Backspace the complete service calls
  \<open>WitnessdOnKeyDown\<close> and then \<open>WitnessdOnTextDelete(1)\<close>, the basic service calls
  \<open>WitnessdOnKeyDown\<close> only.
\<close>

theorem basic_and_complete_differ_on_backspace:
  "new_calls (eng world_init)
      (eng (snd (snd (OnKeyDown host_backspace VK_BACK lparam_back world_init))))
     = [CallOnKeyDown 8 8, CallOnTextDelete 1]
   \<and> new_calls (eng world_init)
      (snd (snd (OnKeyDown_basic host_backspace VK_BACK lparam_back (eng world_init))))
     = [CallOnKeyDown 8 8]
   \<and> new_calls (eng world_init)
      (eng (snd (snd (OnKeyDown host_backspace VK_BACK lparam_back world_init))))
     \<noteq> new_calls (eng world_init)
      (snd (snd (OnKeyDown_basic host_backspace VK_BACK lparam_back (eng world_init))))"
proof -
  have en: "isEnabled world_init"
    by (simp add: world_init_def)
  have ch: "VKToChar host_backspace VK_BACK lparam_back = 8"
    by (simp add: VKToChar_def host_backspace_def host_good_def)
  show ?thesis
    unfolding OnKeyDown_new_calls [OF en] OnKeyDown_basic_new_calls VKToChar_basic_eq ch
    by (simp add: VK_BACK_def)
qed

text \<open>
  Claim C8, amended. While the complete service is enabled, the engine calls of its
  \<open>OnKeyDown\<close> are those of the basic service's \<open>OnKeyDown\<close> for the same key and the
  same translated character, followed by \<open>WitnessdOnTextDelete(1)\<close> when the key is
  \<open>VK_BACK\<close>. So the two make the same calls for every key but Backspace.
\<close>

theorem complete_extends_basic:
  assumes "isEnabled w"
  shows "new_calls (eng w) (eng (snd (snd (OnKeyDown h wParam lParam w)))) =
           new_calls e (snd (snd (OnKeyDown_basic h wParam lParam e)))
           @ (if wParam = VK_BACK then [CallOnTextDelete 1] else [])"
  by (simp add: OnKeyDown_new_calls [OF assms] OnKeyDown_basic_new_calls VKToChar_basic_eq)

theorem complete_extends_basic_witness:
  "isEnabled world_init
   \<and> new_calls (eng world_init) (eng (snd (snd (OnKeyDown host_good 0x41 lparam_A world_init))))
      = new_calls engine_init (snd (snd (OnKeyDown_basic host_good 0x41 lparam_A engine_init)))
   \<and> new_calls engine_init (snd (snd (OnKeyDown_basic host_good 0x41 lparam_A engine_init)))
      = [CallOnKeyDown 0x41 0x61, CallOnTextCommit ''a'']"
  using complete_extends_basic [of world_init host_good "0x41" lparam_A engine_init]
  by (simp add: OnKeyDown_basic_new_calls [of engine_init] VKToChar_basic_eq
      world_init_def host_good_def VKToChar_def VK_BACK_def char_of_a)

section \<open>The enabled flag and the rest of the service\<close>

lemma SetupKeystrokeSink_enabled:
  "SetupKeystrokeSink h (w\<lparr>isEnabled := b\<rparr>)
     = apsnd (\<lambda>v. v\<lparr>isEnabled := b\<rparr>) (SetupKeystrokeSink h w)"
  by (cases "QueryInterface_KeystrokeMgr h") (simp add: SetupKeystrokeSink_def Let_def)

lemma SetupThreadMgrEventSink_enabled:
  "SetupThreadMgrEventSink h (w\<lparr>isEnabled := b\<rparr>)
     = apsnd (\<lambda>v. v\<lparr>isEnabled := b\<rparr>) (SetupThreadMgrEventSink h w)"
  by (cases "AdviseSink_result h") (simp add: SetupThreadMgrEventSink_def Let_def)

lemma CleanupKeystrokeSink_enabled:
  "CleanupKeystrokeSink (w\<lparr>isEnabled := b\<rparr>) = (CleanupKeystrokeSink w)\<lparr>isEnabled := b\<rparr>"
  by (simp add: CleanupKeystrokeSink_def)

lemma SetupSinks_enabled:
  "SetupSinks h (w\<lparr>isEnabled := b\<rparr>) = apsnd (\<lambda>v. v\<lparr>isEnabled := b\<rparr>) (SetupSinks h w)"
proof -
  obtain hr w1 where k: "SetupKeystrokeSink h w = (hr, w1)"
    by fastforce
  obtain hr2 w2 where t: "SetupThreadMgrEventSink h w1 = (hr2, w2)"
    by fastforce
  have k': "SetupKeystrokeSink h (w\<lparr>isEnabled := b\<rparr>) = (hr, w1\<lparr>isEnabled := b\<rparr>)"
    by (simp add: SetupKeystrokeSink_enabled k)
  have t': "SetupThreadMgrEventSink h (w1\<lparr>isEnabled := b\<rparr>) = (hr2, w2\<lparr>isEnabled := b\<rparr>)"
    by (simp add: SetupThreadMgrEventSink_enabled t)
  show ?thesis
    by (simp add: SetupSinks_def k k' t t' CleanupKeystrokeSink_enabled)
qed

lemma CleanupSinks_enabled:
  "CleanupSinks (w\<lparr>isEnabled := b, eng := e\<rparr>) = (CleanupSinks (w\<lparr>eng := e\<rparr>))\<lparr>isEnabled := b\<rparr>"
  by (simp add: CleanupSinks_def CleanupKeystrokeSink_def CleanupThreadMgrEventSink_def
      CleanupTextEditSink_def Let_def)

lemma UpdateFocusInfo_enabled:
  "UpdateFocusInfo h (w\<lparr>isEnabled := b\<rparr>) = (UpdateFocusInfo h w)\<lparr>isEnabled := b\<rparr>"
  by (simp add: UpdateFocusInfo_def Let_def)

lemma Deactivate_enabled:
  "Deactivate h (w\<lparr>isEnabled := b\<rparr>) = apsnd (\<lambda>v. v\<lparr>isEnabled := b\<rparr>) (Deactivate h w)"
  by (simp add: Deactivate_def CleanupSinks_enabled Let_def split: prod.splits)

lemma ActivateEx_enabled:
  "ActivateEx h p c f (w\<lparr>isEnabled := b\<rparr>) = apsnd (\<lambda>v. v\<lparr>isEnabled := b\<rparr>) (ActivateEx h p c f w)"
proof (cases "isActivated w")
  case True
  then show ?thesis by (simp add: ActivateEx_def)
next
  case False
  obtain hr w2 where
    ss: "SetupSinks h (w\<lparr>threadMgr := p, clientId := c, activateFlags := f\<rparr>) = (hr, w2)"
    by fastforce
  have eq: "w\<lparr>isEnabled := b, threadMgr := p, clientId := c, activateFlags := f\<rparr>
      = (w\<lparr>threadMgr := p, clientId := c, activateFlags := f\<rparr>)\<lparr>isEnabled := b\<rparr>"
    by (cases w) simp
  have ss': "SetupSinks h (w\<lparr>isEnabled := b, threadMgr := p, clientId := c, activateFlags := f\<rparr>)
      = (hr, w2\<lparr>isEnabled := b\<rparr>)"
    unfolding eq by (simp add: SetupSinks_enabled ss)
  show ?thesis
    using False
    by (simp add: ActivateEx_def ss ss' Let_def Deactivate_enabled UpdateFocusInfo_enabled)
qed

lemma OnSetFocus_enabled:
  "OnSetFocus h f (w\<lparr>isEnabled := b\<rparr>) = apsnd (\<lambda>v. v\<lparr>isEnabled := b\<rparr>) (OnSetFocus h f w)"
  by (simp add: OnSetFocus_def UpdateFocusInfo_enabled)

lemma NotifyFocusChange_enabled:
  "NotifyFocusChange h (w\<lparr>isEnabled := b\<rparr>) = (NotifyFocusChange h w)\<lparr>isEnabled := b\<rparr>"
  by (simp add: NotifyFocusChange_def Let_def)

lemma OnSetFocus_DocumentMgr_enabled:
  "OnSetFocus_DocumentMgr h p q (w\<lparr>isEnabled := b\<rparr>)
     = apsnd (\<lambda>v. v\<lparr>isEnabled := b\<rparr>) (OnSetFocus_DocumentMgr h p q w)"
proof -
  define A where "A = (\<lambda>w :: world. if currentContext w \<noteq> nullptr
                then (CleanupTextEditSink (currentContext w) w)\<lparr>currentContext := nullptr\<rparr>
                else w)"
  define B where "B = (\<lambda>w1 :: world. if currentDocMgr w1 \<noteq> nullptr
                then w1\<lparr>currentDocMgr := nullptr\<rparr> else w1)"
  define C where "C = (\<lambda>w2 :: world. if p \<noteq> nullptr
                then
                  let (hr, ctx) = GetTop_result h;
                      w2' = w2\<lparr>currentDocMgr := p, currentContext := ctx\<rparr>
                  in if SUCCEEDED hr \<and> ctx \<noteq> nullptr
                     then snd (SetupTextEditSink h ctx w2')
                     else w2'
                else w2)"
  have r: "OnSetFocus_DocumentMgr h p q v
      = (S_OK, NotifyFocusChange h (UpdateFocusInfo h (C (B (A v)))))" for v
    unfolding OnSetFocus_DocumentMgr_def A_def B_def C_def Let_def by (rule refl)
  have a: "A (v\<lparr>isEnabled := b\<rparr>) = (A v)\<lparr>isEnabled := b\<rparr>" for v
    by (cases v) (simp add: A_def CleanupTextEditSink_def)
  have b: "B (v\<lparr>isEnabled := b\<rparr>) = (B v)\<lparr>isEnabled := b\<rparr>" for v
    by (cases v) (simp add: B_def)
  have c: "C (v\<lparr>isEnabled := b\<rparr>) = (C v)\<lparr>isEnabled := b\<rparr>" for v
    by (cases v; cases "GetTop_result h"; cases "Context_AdviseSink_result h")
       (simp add: C_def SetupTextEditSink_def Let_def)
  show ?thesis
    by (simp add: r a b c UpdateFocusInfo_enabled NotifyFocusChange_enabled)
qed

text \<open>
  What \<open>OnSetFocus_DocumentMgr\<close> does before it looks at the foreground window touches
  only the document manager, the context and the text edit sink cookie.
\<close>

lemma OnSetFocus_DocumentMgr_shape:
  "\<exists>w3. snd (OnSetFocus_DocumentMgr h p q w) = NotifyFocusChange h (UpdateFocusInfo h w3)
     \<and> fst (OnSetFocus_DocumentMgr h p q w) = S_OK
     \<and> eng w3 = eng w \<and> isActivated w3 = isActivated w
     \<and> pipe_io w3 = pipe_io w \<and> g_hPipe w3 = g_hPipe w
     \<and> currentAppPath w3 = currentAppPath w \<and> currentWindowTitle w3 = currentWindowTitle w
     \<and> currentFocusWindow w3 = currentFocusWindow w"
proof -
  define w1 where "w1 = (if currentContext w \<noteq> nullptr
                then (CleanupTextEditSink (currentContext w) w)\<lparr>currentContext := nullptr\<rparr>
                else w)"
  define w2 where "w2 = (if currentDocMgr w1 \<noteq> nullptr then w1\<lparr>currentDocMgr := nullptr\<rparr> else w1)"
  define w3 where "w3 = (if p \<noteq> nullptr
                then
                  let (hr, ctx) = GetTop_result h;
                      w2' = w2\<lparr>currentDocMgr := p, currentContext := ctx\<rparr>
                  in if SUCCEEDED hr \<and> ctx \<noteq> nullptr
                     then snd (SetupTextEditSink h ctx w2')
                     else w2'
                else w2)"
  have r: "OnSetFocus_DocumentMgr h p q w = (S_OK, NotifyFocusChange h (UpdateFocusInfo h w3))"
    unfolding OnSetFocus_DocumentMgr_def w3_def w2_def w1_def Let_def by (rule refl)
  have f1: "eng w1 = eng w" "isActivated w1 = isActivated w" "pipe_io w1 = pipe_io w"
    "g_hPipe w1 = g_hPipe w" "currentAppPath w1 = currentAppPath w"
    "currentWindowTitle w1 = currentWindowTitle w" "currentFocusWindow w1 = currentFocusWindow w"
    by (simp_all add: w1_def CleanupTextEditSink_def)
  have f2: "eng w2 = eng w" "isActivated w2 = isActivated w" "pipe_io w2 = pipe_io w"
    "g_hPipe w2 = g_hPipe w" "currentAppPath w2 = currentAppPath w"
    "currentWindowTitle w2 = currentWindowTitle w" "currentFocusWindow w2 = currentFocusWindow w"
    by (simp_all add: w2_def f1)
  have f3: "eng w3 = eng w" "isActivated w3 = isActivated w" "pipe_io w3 = pipe_io w"
    "g_hPipe w3 = g_hPipe w" "currentAppPath w3 = currentAppPath w"
    "currentWindowTitle w3 = currentWindowTitle w" "currentFocusWindow w3 = currentFocusWindow w"
    by (cases "GetTop_result h"; cases "Context_AdviseSink_result h";
        simp add: w3_def SetupTextEditSink_def Let_def f2)+
  from r f3 show ?thesis by auto
qed

lemma WritePipe_only_pipe:
  "WritePipe h vk sc fl ts down w =
     w\<lparr>g_hPipe := g_hPipe (WritePipe h vk sc fl ts down w),
       pipe_io := pipe_io (WritePipe h vk sc fl ts down w)\<rparr>"
  by (cases "g_hPipe w = INVALID_HANDLE_VALUE"; cases w)
     (simp_all add: WritePipe_connected WritePipe_disconnected)

text \<open>Activating a fresh service on the good host.\<close>

lemma activate_example:
  "ActivateEx host_good 0x5000 1 0 world_init =
     (S_OK, world_init\<lparr>threadMgr := 0x5000, clientId := 1, keystrokeMgr := 0x4000,
        threadMgrEventSinkCookie := 7, isActivated := True,
        currentAppPath := [0x61, 0x70, 0x70, 0x2E, 0x78],
        currentWindowTitle := [0x64, 0x6F, 0x63, 0x31],
        currentFocusWindow := 0x20A,
        eng := \<lparr>session = Some (''app.x'', ''doc1''),
                 calls = [CallStartSession ''app.x'' ''doc1'']\<rparr>\<rparr>)"
  by (simp add: ActivateEx_def world_init_def host_good_def SetupSinks_def
      SetupKeystrokeSink_def SetupThreadMgrEventSink_def FAILED_def S_OK_def nullptr_def
      UpdateFocusInfo_def WideToUTF8_def c_wstr_def MAX_PATH_def ascii_utf8_def
      WitnessdStartSession_def engine_init_def Let_def char_of_def bit_0)

section \<open>Key events and the session\<close>

text \<open>
  Claim C1, as stated, fails. On a freshly constructed service, never activated, with no
  session open in the engine, a key-down for \<open>A\<close> writes its frame to the pipe and calls
  \<open>WitnessdOnKeyDown\<close> and \<open>WitnessdOnTextCommit("a")\<close>; a key-down for Backspace calls
  \<open>WitnessdOnTextDelete(1)\<close>.
\<close>

theorem key_forwarded_without_session:
  "\<not> WitnessdHasActiveSession (eng world_init)
   \<and> \<not> isActivated world_init
   \<and> filter is_write (new_pipe_io world_init (snd (snd (OnKeyDown host_good 0x41 lparam_A world_init))))
       = [WriteFile_call 0x1F4 (pipe_frame 0x41 0x1E 0x1E0001 1234567890 True) True]
   \<and> new_calls (eng world_init) (eng (snd (snd (OnKeyDown host_good 0x41 lparam_A world_init))))
       = [CallOnKeyDown 0x41 0x61, CallOnTextCommit ''a'']
   \<and> new_calls (eng world_init)
        (eng (snd (snd (OnKeyDown host_backspace VK_BACK lparam_back world_init))))
       = [CallOnKeyDown 8 8, CallOnTextDelete 1]"
proof -
  have en: "isEnabled world_init"
    by (simp add: world_init_def)
  have s: "\<not> WitnessdHasActiveSession (eng world_init) \<and> \<not> isActivated world_init"
    by (simp add: world_init_def engine_init_def WitnessdHasActiveSession_def)
  have cp: "g_hPipe (ConnectPipe host_good world_init) = 0x1F4"
    by (simp add: ConnectPipe_def world_init_def host_good_def)
  have wr: "filter is_write
        (new_pipe_io world_init (snd (snd (OnKeyDown host_good 0x41 lparam_A world_init))))
       = [WriteFile_call 0x1F4 (pipe_frame 0x41 0x1E 0x1E0001 1234567890 True) True]"
    unfolding OnKeyDown_new_pipe_io [OF en] WritePipe_new_io cp
    by (simp add: host_good_def INVALID_HANDLE_VALUE_def lparam_scan_def lparam_A_def)
  have ca: "VKToChar host_good 0x41 lparam_A = 0x61"
    by (simp add: VKToChar_def host_good_def)
  have cb: "VKToChar host_backspace VK_BACK lparam_back = 8"
    by (simp add: VKToChar_def host_backspace_def host_good_def)
  have c1: "new_calls (eng world_init) (eng (snd (snd (OnKeyDown host_good 0x41 lparam_A world_init))))
       = [CallOnKeyDown 0x41 0x61, CallOnTextCommit ''a'']"
    unfolding OnKeyDown_new_calls [OF en] ca by (simp add: VK_BACK_def char_of_a)
  have c2: "new_calls (eng world_init)
        (eng (snd (snd (OnKeyDown host_backspace VK_BACK lparam_back world_init))))
       = [CallOnKeyDown 8 8, CallOnTextDelete 1]"
    unfolding OnKeyDown_new_calls [OF en] cb by (simp add: VK_BACK_def)
  from s wr c1 c2 show ?thesis by blast
qed

text \<open>
  Claim C1, amended. A key event is forwarded whenever the enabled flag is set, whether or
  not a session is open. \<open>OnKeyDown\<close> and \<open>OnKeyUp\<close> write the event's frame to the pipe
  if the pipe is connected or the one connection attempt succeeds, and write nothing
  otherwise; \<open>OnKeyDown\<close> then calls \<open>WitnessdOnKeyDown\<close>, \<open>WitnessdOnTextCommit\<close> for a
  printable character and \<open>WitnessdOnTextDelete(1)\<close> for \<open>VK_BACK\<close>, and \<open>OnKeyUp\<close> calls
  nothing. A frame that cannot be sent is dropped without being counted: the pipe handle,
  the record of pipe operations and the engine's call record are all that a key event
  changes.
\<close>

theorem enabled_key_events_are_forwarded:
  assumes "isEnabled w"
  shows "filter is_write (new_pipe_io w (snd (snd (OnKeyDown h wParam lParam w)))) =
           (if g_hPipe (ConnectPipe h w) = INVALID_HANDLE_VALUE then []
            else [WriteFile_call (g_hPipe (ConnectPipe h w))
                    (pipe_frame (ucast wParam) (lparam_scan lParam) (ucast lParam)
                       (GetTimestampNanos h) True)
                    (WriteFile_success h)])
       \<and> filter is_write (new_pipe_io w (snd (snd (OnKeyUp h wParam lParam w)))) =
           (if g_hPipe (ConnectPipe h w) = INVALID_HANDLE_VALUE then []
            else [WriteFile_call (g_hPipe (ConnectPipe h w))
                    (pipe_frame (ucast wParam) (lparam_scan lParam) (ucast lParam)
                       (GetTimestampNanos h) False)
                    (WriteFile_success h)])
       \<and> new_calls (eng w) (eng (snd (snd (OnKeyDown h wParam lParam w)))) =
           CallOnKeyDown (ucast wParam) (VKToChar h wParam lParam)
           # (if 0x20 \<le> VKToChar h wParam lParam \<and> VKToChar h wParam lParam \<le> 0x7E
              then [CallOnTextCommit [char_of (VKToChar h wParam lParam)]] else [])
           @ (if wParam = VK_BACK then [CallOnTextDelete 1] else [])
       \<and> new_calls (eng w) (eng (snd (snd (OnKeyUp h wParam lParam w)))) = []
       \<and> snd (snd (OnKeyDown h wParam lParam w)) =
           w\<lparr>g_hPipe := g_hPipe (snd (snd (OnKeyDown h wParam lParam w))),
             pipe_io := pipe_io (snd (snd (OnKeyDown h wParam lParam w))),
             eng := (eng w)\<lparr>calls := calls (eng (snd (snd (OnKeyDown h wParam lParam w))))\<rparr>\<rparr>
       \<and> snd (snd (OnKeyUp h wParam lParam w)) =
           w\<lparr>g_hPipe := g_hPipe (snd (snd (OnKeyUp h wParam lParam w))),
             pipe_io := pipe_io (snd (snd (OnKeyUp h wParam lParam w)))\<rparr>"
proof -
  have d: "filter is_write (new_pipe_io w (snd (snd (OnKeyDown h wParam lParam w)))) =
           (if g_hPipe (ConnectPipe h w) = INVALID_HANDLE_VALUE then []
            else [WriteFile_call (g_hPipe (ConnectPipe h w))
                    (pipe_frame (ucast wParam) (lparam_scan lParam) (ucast lParam)
                       (GetTimestampNanos h) True)
                    (WriteFile_success h)])"
    unfolding OnKeyDown_new_pipe_io [OF assms] WritePipe_new_io by simp
  have u: "filter is_write (new_pipe_io w (snd (snd (OnKeyUp h wParam lParam w)))) =
           (if g_hPipe (ConnectPipe h w) = INVALID_HANDLE_VALUE then []
            else [WriteFile_call (g_hPipe (ConnectPipe h w))
                    (pipe_frame (ucast wParam) (lparam_scan lParam) (ucast lParam)
                       (GetTimestampNanos h) False)
                    (WriteFile_success h)])"
    unfolding OnKeyUp_enabled [OF assms] WritePipe_new_io by simp
  have cu: "new_calls (eng w) (eng (snd (snd (OnKeyUp h wParam lParam w)))) = []"
    unfolding OnKeyUp_enabled [OF assms] WritePipe_eng by (rule new_calls_same)
  have fd: "snd (snd (OnKeyDown h wParam lParam w)) =
           w\<lparr>g_hPipe := g_hPipe (snd (snd (OnKeyDown h wParam lParam w))),
             pipe_io := pipe_io (snd (snd (OnKeyDown h wParam lParam w))),
             eng := (eng w)\<lparr>calls := calls (eng (snd (snd (OnKeyDown h wParam lParam w))))\<rparr>\<rparr>"
    using assms WritePipe_only_pipe [of h "ucast wParam" "lparam_scan lParam" "ucast lParam"
        "GetTimestampNanos h" True w]
    by (simp add: OnKeyDown_def Let_def WritePipe_eng WitnessdOnKeyDown_def
        WitnessdOnTextCommit_def WitnessdOnTextDelete_def)
  have fu: "snd (snd (OnKeyUp h wParam lParam w)) =
           w\<lparr>g_hPipe := g_hPipe (snd (snd (OnKeyUp h wParam lParam w))),
             pipe_io := pipe_io (snd (snd (OnKeyUp h wParam lParam w)))\<rparr>"
    unfolding OnKeyUp_enabled [OF assms] by (rule WritePipe_only_pipe)
  from d u OnKeyDown_new_calls [OF assms, of h wParam lParam] cu fd fu
  show ?thesis by blast
qed

lemma WritePipe_isActivated: "isActivated (WritePipe h vk sc fl ts down w) = isActivated w"
  by (cases "g_hPipe w = INVALID_HANDLE_VALUE")
     (simp_all add: WritePipe_connected WritePipe_disconnected)

theorem enabled_key_events_are_forwarded_witness:
  "isEnabled world_init
   \<and> \<not> WitnessdHasActiveSession (eng world_init)
   \<and> filter is_write
        (new_pipe_io world_init (snd (snd (OnKeyDown host_no_daemon 0x41 lparam_A world_init)))) = []
   \<and> new_calls (eng world_init) (eng (snd (snd (OnKeyDown host_no_daemon 0x41 lparam_A world_init))))
       = [CallOnKeyDown 0x41 0x61, CallOnTextCommit ''a'']"
proof -
  have en: "isEnabled world_init"
    by (simp add: world_init_def)
  have s: "\<not> WitnessdHasActiveSession (eng world_init)"
    by (simp add: world_init_def engine_init_def WitnessdHasActiveSession_def)
  note t = enabled_key_events_are_forwarded [OF en, of host_no_daemon "0x41" lparam_A]
  have cp: "g_hPipe (ConnectPipe host_no_daemon world_init) = INVALID_HANDLE_VALUE"
    by (simp add: ConnectPipe_def world_init_def host_no_daemon_def)
  have ch: "VKToChar host_no_daemon 0x41 lparam_A = 0x61"
    by (simp add: VKToChar_def host_no_daemon_def host_good_def)
  have wr: "filter is_write
        (new_pipe_io world_init (snd (snd (OnKeyDown host_no_daemon 0x41 lparam_A world_init)))) = []"
    using t [THEN conjunct1] cp by simp
  have cl: "new_calls (eng world_init)
        (eng (snd (snd (OnKeyDown host_no_daemon 0x41 lparam_A world_init))))
       = [CallOnKeyDown 0x41 0x61, CallOnTextCommit ''a'']"
    using t [THEN conjunct2, THEN conjunct2, THEN conjunct1] ch
    by (simp add: VK_BACK_def char_of_a)
  from en s wr cl show ?thesis by blast
qed

section \<open>Activation and deactivation\<close>

lemma CleanupSinks_frame:
  "eng (CleanupSinks w) = eng w" "isActivated (CleanupSinks w) = isActivated w"
  by (simp_all add: CleanupSinks_def CleanupKeystrokeSink_def CleanupThreadMgrEventSink_def
      CleanupTextEditSink_def Let_def)

lemma SetupKeystrokeSink_frame:
  "eng (snd (SetupKeystrokeSink h w)) = eng w"
  "isActivated (snd (SetupKeystrokeSink h w)) = isActivated w"
  "currentAppPath (snd (SetupKeystrokeSink h w)) = currentAppPath w"
  "currentWindowTitle (snd (SetupKeystrokeSink h w)) = currentWindowTitle w"
  "currentFocusWindow (snd (SetupKeystrokeSink h w)) = currentFocusWindow w"
  by (cases "QueryInterface_KeystrokeMgr h"; simp add: SetupKeystrokeSink_def Let_def)+

lemma SetupThreadMgrEventSink_frame:
  "eng (snd (SetupThreadMgrEventSink h w)) = eng w"
  "isActivated (snd (SetupThreadMgrEventSink h w)) = isActivated w"
  "currentAppPath (snd (SetupThreadMgrEventSink h w)) = currentAppPath w"
  "currentWindowTitle (snd (SetupThreadMgrEventSink h w)) = currentWindowTitle w"
  "currentFocusWindow (snd (SetupThreadMgrEventSink h w)) = currentFocusWindow w"
  by (cases "AdviseSink_result h"; simp add: SetupThreadMgrEventSink_def Let_def)+

lemma SetupSinks_frame:
  "eng (snd (SetupSinks h w)) = eng w"
  "isActivated (snd (SetupSinks h w)) = isActivated w"
  "currentAppPath (snd (SetupSinks h w)) = currentAppPath w"
  "currentWindowTitle (snd (SetupSinks h w)) = currentWindowTitle w"
  "currentFocusWindow (snd (SetupSinks h w)) = currentFocusWindow w"
proof -
  obtain hr w1 where k: "SetupKeystrokeSink h w = (hr, w1)"
    by fastforce
  obtain hr2 w2 where t: "SetupThreadMgrEventSink h w1 = (hr2, w2)"
    by fastforce
  have w1: "eng w1 = eng w" "isActivated w1 = isActivated w" "currentAppPath w1 = currentAppPath w"
    "currentWindowTitle w1 = currentWindowTitle w" "currentFocusWindow w1 = currentFocusWindow w"
    using SetupKeystrokeSink_frame [of h w] by (simp_all add: k)
  have w2: "eng w2 = eng w" "isActivated w2 = isActivated w" "currentAppPath w2 = currentAppPath w"
    "currentWindowTitle w2 = currentWindowTitle w" "currentFocusWindow w2 = currentFocusWindow w"
    using SetupThreadMgrEventSink_frame [of h w1] by (simp_all add: t w1)
  show "eng (snd (SetupSinks h w)) = eng w"
    "isActivated (snd (SetupSinks h w)) = isActivated w"
    "currentAppPath (snd (SetupSinks h w)) = currentAppPath w"
    "currentWindowTitle (snd (SetupSinks h w)) = currentWindowTitle w"
    "currentFocusWindow (snd (SetupSinks h w)) = currentFocusWindow w"
    by (simp_all add: SetupSinks_def k t w1 w2 CleanupKeystrokeSink_def)
qed

lemma UpdateFocusInfo_frame:
  "eng (UpdateFocusInfo h w) = eng w" "isActivated (UpdateFocusInfo h w) = isActivated w"
  by (simp_all add: UpdateFocusInfo_def Let_def)

lemma Deactivate_inactive: "\<not> isActivated w \<Longrightarrow> Deactivate h w = (S_OK, w)"
  by (simp add: Deactivate_def)

lemma Deactivate_post:
  "fst (Deactivate h w) = S_OK" "\<not> isActivated (snd (Deactivate h w))"
  by (simp_all add: Deactivate_def Let_def)

lemma Deactivate_eng:
  assumes "isActivated w"
  shows "eng (snd (Deactivate h w)) =
     (if WitnessdHasActiveSession (eng w)
      then (eng w)\<lparr>session := None,
             calls := calls (eng w) @ CallEndSession
               # (if EndSession_evidence h \<noteq> None then [CallFreeString] else [])\<rparr>
      else eng w)"
  using assms
  by (simp add: Deactivate_def Let_def CleanupSinks_frame WitnessdEndSession_def
      WitnessdFreeString_def)

lemma Deactivate_no_session:
  assumes "session_implies_activated w"
  shows "\<not> WitnessdHasActiveSession (eng (snd (Deactivate h w)))"
proof (cases "isActivated w")
  case True
  then show ?thesis
    by (simp add: Deactivate_eng WitnessdHasActiveSession_def)
next
  case False
  with assms show ?thesis
    by (simp add: Deactivate_inactive session_implies_activated_def)
qed

lemma Deactivate_new_calls:
  assumes "session_implies_activated w"
  shows "new_calls (eng w) (eng (snd (Deactivate h w))) =
     (if WitnessdHasActiveSession (eng w)
      then CallEndSession # (if EndSession_evidence h \<noteq> None then [CallFreeString] else [])
      else [])"
proof (cases "isActivated w")
  case True
  then show ?thesis
    by (simp add: Deactivate_eng new_calls_def)
next
  case False
  with assms show ?thesis
    by (simp add: Deactivate_inactive session_implies_activated_def new_calls_def)
qed

lemma ActivateEx_inv:
  assumes "session_implies_activated w"
  shows "session_implies_activated (snd (ActivateEx h p c f w))"
proof (cases "isActivated w")
  case True
  with assms show ?thesis by (simp add: ActivateEx_def)
next
  case False
  obtain hr w2 where
    ss: "SetupSinks h (w\<lparr>threadMgr := p, clientId := c, activateFlags := f\<rparr>) = (hr, w2)"
    by fastforce
  have w2: "eng w2 = eng w" "isActivated w2 = isActivated w"
    using SetupSinks_frame(1,2) [of h "w\<lparr>threadMgr := p, clientId := c, activateFlags := f\<rparr>"]
    by (simp_all add: ss)
  show ?thesis
  proof (cases "FAILED hr")
    case True
    with False assms w2 show ?thesis
      by (simp add: ActivateEx_def ss Deactivate_inactive session_implies_activated_def)
  next
    case nf: False
    with False show ?thesis
      by (simp add: ActivateEx_def ss Let_def session_implies_activated_def)
  qed
qed

lemma step_inv:
  assumes "session_implies_activated w"
  shows "session_implies_activated (step c w)"
proof (cases c)
  case (DoActivate h p cl)
  with assms show ?thesis by (simp add: Activate_def ActivateEx_inv)
next
  case (DoActivateEx h p cl f)
  with assms show ?thesis by (simp add: ActivateEx_inv)
next
  case (DoDeactivate h)
  then show ?thesis
    using Deactivate_no_session [OF assms, of h]
    by (simp add: session_implies_activated_def)
next
  case (DoSetEnabled b)
  with assms show ?thesis by (simp add: SetEnabled_def session_implies_activated_def)
next
  case (DoOnSetFocus h b)
  with assms show ?thesis
    by (simp add: OnSetFocus_def UpdateFocusInfo_frame session_implies_activated_def)
next
  case (DoOnSetFocus_DocumentMgr h p q)
  obtain w3 where w3: "snd (OnSetFocus_DocumentMgr h p q w) = NotifyFocusChange h (UpdateFocusInfo h w3)"
    "eng w3 = eng w" "isActivated w3 = isActivated w"
    using OnSetFocus_DocumentMgr_shape [of h p q w] by blast
  with assms show ?thesis
    by (simp add: DoOnSetFocus_DocumentMgr NotifyFocusChange_def Let_def UpdateFocusInfo_frame
        WitnessdOnFocusChange_def WitnessdHasActiveSession_def session_implies_activated_def)
next
  case (DoOnTestKeyDown wp lp)
  with assms show ?thesis by (simp add: OnTestKeyDown_def)
next
  case (DoOnTestKeyUp wp lp)
  with assms show ?thesis by (simp add: OnTestKeyUp_def)
next
  case (DoOnKeyDown h wp lp)
  with assms show ?thesis
    by (simp add: OnKeyDown_def Let_def WritePipe_eng WritePipe_isActivated
        WitnessdOnKeyDown_def WitnessdOnTextCommit_def WitnessdOnTextDelete_def
        WitnessdHasActiveSession_def session_implies_activated_def)
next
  case (DoOnKeyUp h wp lp)
  with assms show ?thesis
    by (simp add: OnKeyUp_def Let_def WritePipe_eng WritePipe_isActivated
        session_implies_activated_def)
next
  case DoOnPreservedKey
  with assms show ?thesis by (simp add: OnPreservedKey_def)
qed

lemma run_inv:
  "session_implies_activated w \<Longrightarrow> session_implies_activated (run cs w)"
  by (induction cs arbitrary: w) (simp_all add: step_inv)

lemma init_inv: "session_implies_activated world_init"
  by (simp add: session_implies_activated_def world_init_def engine_init_def
      WitnessdHasActiveSession_def)

text \<open>
  Claim C4. After any finite sequence of host callbacks on a freshly constructed service
  (activations and deactivations in any number and order, and any other callback in
  between), \<open>Deactivate\<close> returns \<open>S_OK\<close> and leaves the engine without an active session
  and the service not activated. It ends the open session if there is one
  (\<open>WitnessdEndSession\<close>, and \<open>WitnessdFreeString\<close> for a non-null evidence string) and
  calls the engine for nothing otherwise. A second \<open>Deactivate\<close> returns \<open>S_OK\<close> and
  changes nothing.
\<close>

theorem deactivate_leaves_no_session:
  "fst (Deactivate h (run cs world_init)) = S_OK
   \<and> \<not> WitnessdHasActiveSession (eng (snd (Deactivate h (run cs world_init))))
   \<and> \<not> isActivated (snd (Deactivate h (run cs world_init)))
   \<and> new_calls (eng (run cs world_init)) (eng (snd (Deactivate h (run cs world_init)))) =
       (if WitnessdHasActiveSession (eng (run cs world_init))
        then CallEndSession # (if EndSession_evidence h \<noteq> None then [CallFreeString] else [])
        else [])
   \<and> Deactivate h' (snd (Deactivate h (run cs world_init)))
       = (S_OK, snd (Deactivate h (run cs world_init)))"
proof -
  have inv: "session_implies_activated (run cs world_init)"
    by (rule run_inv [OF init_inv])
  have idem: "Deactivate h' (snd (Deactivate h (run cs world_init)))
       = (S_OK, snd (Deactivate h (run cs world_init)))"
    by (rule Deactivate_inactive) (rule Deactivate_post)
  from Deactivate_post [of h "run cs world_init"] Deactivate_no_session [OF inv, of h]
    Deactivate_new_calls [OF inv, of h] idem
  show ?thesis by blast
qed

theorem deactivate_leaves_no_session_witness:
  "WitnessdHasActiveSession (eng (run [DoActivate host_good 0x5000 1] world_init))
   \<and> \<not> WitnessdHasActiveSession
        (eng (snd (Deactivate host_good (run [DoActivate host_good 0x5000 1] world_init))))
   \<and> new_calls (eng (run [DoActivate host_good 0x5000 1] world_init))
        (eng (snd (Deactivate host_good (run [DoActivate host_good 0x5000 1] world_init))))
       = [CallEndSession, CallFreeString]"
proof -
  have r: "run [DoActivate host_good 0x5000 1] world_init
      = snd (ActivateEx host_good 0x5000 1 0 world_init)"
    by (simp add: Activate_def)
  have active: "WitnessdHasActiveSession (eng (run [DoActivate host_good 0x5000 1] world_init))"
    unfolding r by (simp add: activate_example WitnessdHasActiveSession_def)
  have ev: "EndSession_evidence host_good \<noteq> None"
    by (simp add: host_good_def)
  from deactivate_leaves_no_session [of host_good "[DoActivate host_good 0x5000 1]" host_good]
    active ev
  show ?thesis by simp
qed

section \<open>UTF-16 to UTF-8 in the runner\<close>

lemma Utf8FromUtf16_null: "Utf8FromUtf16 max_size h None = (None, Some [])"
  by (simp add: Utf8FromUtf16_def)

lemma wrapped_length: "unat (- 1 :: 32 word) = 4294967295"
  by (simp add: unsigned_minus_1_eq_mask mask_eq_exp_minus_1)

lemma Utf8FromUtf16_failure:
  assumes "WideCharToMultiByte_size h s = 0"
  shows "Utf8FromUtf16 max_size h (Some s) =
     (if 4294967295 > max_size then (None, Some [])
      else if \<not> resize_succeeds h then (Some 4294967295, None)
      else if WideCharToMultiByte_converted h s = 0 then (Some 4294967295, Some [])
      else (Some 4294967295, Some (WideCharToMultiByte_output h s)))"
  using assms by (simp add: Utf8FromUtf16_def Let_def wrapped_length)

text \<open>
  Claim C9 at its failing input. For a null pointer \<open>Utf8FromUtf16\<close> returns the empty
  string. When the sizing call reports failure (0), \<open>target_length\<close> wraps to 4294967295.
  With a 64-bit \<open>size_t\<close>, \<open>max_size()\<close> is \<open>2^63 - 1\<close>, the guard
  \<open>target_length > max_size()\<close> is false, and the function calls \<open>resize(4294967295)\<close>:
  it returns the empty string only after that allocation, and throws if the allocation
  fails. With a 32-bit \<open>size_t\<close> the guard catches the wrapped length.
\<close>

theorem Utf8FromUtf16_resizes_to_wrapped_length:
  "Utf8FromUtf16 max_size_64 conv_fails None = (None, Some [])
   \<and> Utf8FromUtf16 max_size_64 conv_fails (Some [0xD800]) = (Some 4294967295, Some [])
   \<and> Utf8FromUtf16 max_size_64 (conv_fails\<lparr>resize_succeeds := False\<rparr>) (Some [0xD800])
       = (Some 4294967295, None)
   \<and> Utf8FromUtf16 max_size_32 conv_fails (Some [0xD800]) = (None, Some [])"
proof -
  have f: "WideCharToMultiByte_size conv_fails [0xD800] = 0"
    "WideCharToMultiByte_size (conv_fails\<lparr>resize_succeeds := False\<rparr>) [0xD800] = 0"
    by (simp_all add: conv_fails_def)
  have m64: "\<not> 4294967295 > max_size_64"
    by (simp add: max_size_64_def)
  have m32: "4294967295 > max_size_32"
    by (simp add: max_size_32_def)
  show ?thesis
    unfolding Utf8FromUtf16_failure [OF f(1)] Utf8FromUtf16_failure [OF f(2)] Utf8FromUtf16_null
    using m64 m32 by (simp add: conv_fails_def)
qed

section \<open>Focus that cannot be resolved\<close>

lemma UpdateFocusInfo_handle:
  "currentFocusWindow (UpdateFocusInfo h w) = GetForegroundWindow_hwnd h"
  by (simp add: UpdateFocusInfo_def Let_def)

lemma UpdateFocusInfo_unresolved:
  assumes "focus_unresolved h w"
  shows "currentAppPath (UpdateFocusInfo h w) = []"
    and "currentWindowTitle (UpdateFocusInfo h w) = []"
  using assms
  by (auto simp add: focus_unresolved_def UpdateFocusInfo_def Let_def split: if_splits)

lemma SetupSinks_focus_unresolved:
  "focus_unresolved h (snd (SetupSinks h' (w\<lparr>threadMgr := p, clientId := c, activateFlags := f\<rparr>)))
     = focus_unresolved h w"
  by (simp add: focus_unresolved_def SetupSinks_frame)

lemma UpdateFocusInfo_after_SetupSinks:
  "currentFocusWindow (UpdateFocusInfo h (snd (SetupSinks h' w))) = GetForegroundWindow_hwnd h"
  "currentAppPath (UpdateFocusInfo h (snd (SetupSinks h' w))) = currentAppPath (UpdateFocusInfo h w)"
  "currentWindowTitle (UpdateFocusInfo h (snd (SetupSinks h' w)))
     = currentWindowTitle (UpdateFocusInfo h w)"
  by (simp_all add: UpdateFocusInfo_def Let_def SetupSinks_frame)

lemma UpdateFocusInfo_ignores_activation:
  "currentAppPath (UpdateFocusInfo h (w\<lparr>threadMgr := p, clientId := c, activateFlags := f\<rparr>))
     = currentAppPath (UpdateFocusInfo h w)"
  "currentWindowTitle (UpdateFocusInfo h (w\<lparr>threadMgr := p, clientId := c, activateFlags := f\<rparr>))
     = currentWindowTitle (UpdateFocusInfo h w)"
  by (simp_all add: UpdateFocusInfo_def Let_def)

lemma ActivateEx_success:
  assumes "\<not> isActivated w"
    and "\<not> FAILED (fst (SetupSinks h (w\<lparr>threadMgr := p, clientId := c, activateFlags := f\<rparr>)))"
  shows "fst (ActivateEx h p c f w) = S_OK"
    and "isActivated (snd (ActivateEx h p c f w))"
    and "currentFocusWindow (snd (ActivateEx h p c f w)) = GetForegroundWindow_hwnd h"
    and "new_calls (eng w) (eng (snd (ActivateEx h p c f w))) =
      [CallStartSession
         (if WideToUTF8 h (currentAppPath (UpdateFocusInfo h w)) = [] then ''windows.tsf''
          else WideToUTF8 h (currentAppPath (UpdateFocusInfo h w)))
         (if WideToUTF8 h (currentWindowTitle (UpdateFocusInfo h w)) = [] then ''default''
          else WideToUTF8 h (currentWindowTitle (UpdateFocusInfo h w)))]"
proof -
  obtain hr w2 where
    ss: "SetupSinks h (w\<lparr>threadMgr := p, clientId := c, activateFlags := f\<rparr>) = (hr, w2)"
    by fastforce
  have nf: "\<not> FAILED hr"
    using assms(2) by (simp add: ss)
  have w2: "w2 = snd (SetupSinks h (w\<lparr>threadMgr := p, clientId := c, activateFlags := f\<rparr>))"
    by (simp add: ss)
  have e2: "eng w2 = eng w"
    unfolding w2 by (simp add: SetupSinks_frame)
  have a2: "currentAppPath (UpdateFocusInfo h w2) = currentAppPath (UpdateFocusInfo h w)"
    unfolding w2 by (simp add: UpdateFocusInfo_after_SetupSinks UpdateFocusInfo_ignores_activation)
  have t2: "currentWindowTitle (UpdateFocusInfo h w2) = currentWindowTitle (UpdateFocusInfo h w)"
    unfolding w2 by (simp add: UpdateFocusInfo_after_SetupSinks UpdateFocusInfo_ignores_activation)
  show "fst (ActivateEx h p c f w) = S_OK"
    using assms(1) nf by (simp add: ActivateEx_def ss Let_def)
  show "isActivated (snd (ActivateEx h p c f w))"
    using assms(1) nf by (simp add: ActivateEx_def ss Let_def)
  show "currentFocusWindow (snd (ActivateEx h p c f w)) = GetForegroundWindow_hwnd h"
    using assms(1) nf by (simp add: ActivateEx_def ss Let_def UpdateFocusInfo_handle)
  show "new_calls (eng w) (eng (snd (ActivateEx h p c f w))) =
      [CallStartSession
         (if WideToUTF8 h (currentAppPath (UpdateFocusInfo h w)) = [] then ''windows.tsf''
          else WideToUTF8 h (currentAppPath (UpdateFocusInfo h w)))
         (if WideToUTF8 h (currentWindowTitle (UpdateFocusInfo h w)) = [] then ''default''
          else WideToUTF8 h (currentWindowTitle (UpdateFocusInfo h w)))]"
    using assms(1) nf
    by (simp add: ActivateEx_def ss Let_def a2 t2 e2 UpdateFocusInfo_frame
        WitnessdStartSession_def new_calls_def)
qed

lemma WideToUTF8_empty: "WideToUTF8 h [] = []"
  by (simp add: WideToUTF8_def)

lemma SetupSinks_host_unresolved:
  "SetupSinks host_unresolved (world_init\<lparr>threadMgr := 0x5000, clientId := 1, activateFlags := 0\<rparr>)
     = (S_OK, world_init\<lparr>threadMgr := 0x5000, clientId := 1, activateFlags := 0,
                keystrokeMgr := 0x4000, threadMgrEventSinkCookie := 7\<rparr>)"
  by (simp add: SetupSinks_def SetupKeystrokeSink_def SetupThreadMgrEventSink_def
      host_unresolved_def host_good_def world_init_def FAILED_def S_OK_def nullptr_def Let_def)

lemma host_unresolved_is_unresolved: "focus_unresolved host_unresolved world_init"
  by (simp add: focus_unresolved_def host_unresolved_def host_good_def world_init_def
      nullptr_def c_wstr_def)

text \<open>
  Claim C6, as stated, fails. Activating a fresh service while the foreground window has
  no title and its process cannot be opened starts the session for the application
  \<open>windows.tsf\<close>, not \<open>unknown\<close>, and the document \<open>default\<close>.
\<close>

theorem unresolved_focus_is_not_unknown:
  "focus_unresolved host_unresolved world_init
   \<and> new_calls (eng world_init) (eng (snd (ActivateEx host_unresolved 0x5000 1 0 world_init)))
       = [CallStartSession ''windows.tsf'' ''default'']
   \<and> [CallStartSession ''windows.tsf'' ''default''] \<noteq> [CallStartSession ''unknown'' ''default'']"
proof -
  have na: "\<not> isActivated world_init"
    by (simp add: world_init_def)
  have ok: "\<not> FAILED (fst (SetupSinks host_unresolved
      (world_init\<lparr>threadMgr := 0x5000, clientId := 1, activateFlags := 0\<rparr>)))"
    by (simp add: SetupSinks_host_unresolved FAILED_def S_OK_def)
  note u = UpdateFocusInfo_unresolved [OF host_unresolved_is_unresolved]
  have "new_calls (eng world_init) (eng (snd (ActivateEx host_unresolved 0x5000 1 0 world_init)))
       = [CallStartSession ''windows.tsf'' ''default'']"
    unfolding ActivateEx_success(4) [OF na ok] u by (simp add: WideToUTF8_empty)
  with host_unresolved_is_unresolved show ?thesis by simp
qed

text \<open>
  Claim C6, amended. \<open>UpdateFocusInfo\<close> always leaves the stored window handle equal to
  the current foreground window, whatever happens to the lookups after it. An activation
  whose sinks are set up succeeds whether or not the foreground window resolves: it
  returns \<open>S_OK\<close>, marks the service activated and starts one session, with \<open>windows.tsf\<close>
  in place of an empty application path and \<open>default\<close> in place of an empty title, each on
  its own; when the window resolves to neither, the session is started for
  \<open>windows.tsf\<close> and \<open>default\<close>. The thread manager's focus callback does not fail
  either; it passes the strings on as they are, so it reports an unresolved window to
  the engine with two empty strings.
\<close>

theorem unresolved_focus_falls_back:
  "currentFocusWindow (UpdateFocusInfo h w) = GetForegroundWindow_hwnd h
   \<and> (\<not> isActivated w
        \<and> \<not> FAILED (fst (SetupSinks h (w\<lparr>threadMgr := p, clientId := c, activateFlags := f\<rparr>)))
      \<longrightarrow> fst (ActivateEx h p c f w) = S_OK
        \<and> isActivated (snd (ActivateEx h p c f w))
        \<and> currentFocusWindow (snd (ActivateEx h p c f w)) = GetForegroundWindow_hwnd h
        \<and> new_calls (eng w) (eng (snd (ActivateEx h p c f w))) =
            [CallStartSession
               (if WideToUTF8 h (currentAppPath (UpdateFocusInfo h w)) = [] then ''windows.tsf''
                else WideToUTF8 h (currentAppPath (UpdateFocusInfo h w)))
               (if WideToUTF8 h (currentWindowTitle (UpdateFocusInfo h w)) = [] then ''default''
                else WideToUTF8 h (currentWindowTitle (UpdateFocusInfo h w)))]
        \<and> (focus_unresolved h w \<longrightarrow>
             new_calls (eng w) (eng (snd (ActivateEx h p c f w)))
               = [CallStartSession ''windows.tsf'' ''default'']))
   \<and> (focus_unresolved h w \<longrightarrow>
        fst (OnSetFocus_DocumentMgr h pFocus pPrev w) = S_OK
        \<and> currentFocusWindow (snd (OnSetFocus_DocumentMgr h pFocus pPrev w))
            = GetForegroundWindow_hwnd h
        \<and> new_calls (eng w) (eng (snd (OnSetFocus_DocumentMgr h pFocus pPrev w)))
            = [CallOnFocusChange [] []])"
proof -
  have notify: "fst (OnSetFocus_DocumentMgr h pFocus pPrev w) = S_OK
        \<and> currentFocusWindow (snd (OnSetFocus_DocumentMgr h pFocus pPrev w))
            = GetForegroundWindow_hwnd h
        \<and> new_calls (eng w) (eng (snd (OnSetFocus_DocumentMgr h pFocus pPrev w)))
            = [CallOnFocusChange [] []]"
    if u: "focus_unresolved h w"
  proof -
    obtain w3 where w3:
      "snd (OnSetFocus_DocumentMgr h pFocus pPrev w) = NotifyFocusChange h (UpdateFocusInfo h w3)"
      "fst (OnSetFocus_DocumentMgr h pFocus pPrev w) = S_OK"
      "eng w3 = eng w" "currentAppPath w3 = currentAppPath w"
      "currentWindowTitle w3 = currentWindowTitle w" "currentFocusWindow w3 = currentFocusWindow w"
      using OnSetFocus_DocumentMgr_shape [of h pFocus pPrev w] by blast
    have u3: "focus_unresolved h w3"
      using u by (simp add: focus_unresolved_def w3)
    show ?thesis
      by (simp add: w3 NotifyFocusChange_def Let_def UpdateFocusInfo_unresolved [OF u3]
          WideToUTF8_empty UpdateFocusInfo_frame UpdateFocusInfo_handle
          WitnessdOnFocusChange_def new_calls_def)
  qed
  have act: "new_calls (eng w) (eng (snd (ActivateEx h p c f w)))
               = [CallStartSession ''windows.tsf'' ''default'']"
    if "\<not> isActivated w"
      and "\<not> FAILED (fst (SetupSinks h (w\<lparr>threadMgr := p, clientId := c, activateFlags := f\<rparr>)))"
      and "focus_unresolved h w"
    unfolding ActivateEx_success(4) [OF that(1,2)] UpdateFocusInfo_unresolved [OF that(3)]
    by (simp add: WideToUTF8_empty)
  from UpdateFocusInfo_handle [of h w]
    ActivateEx_success [where w = w and h = h and p = p and c = c and f = f] act notify
  show ?thesis by blast
qed

theorem unresolved_focus_falls_back_witness:
  "\<not> isActivated world_init
   \<and> \<not> FAILED (fst (SetupSinks host_unresolved
        (world_init\<lparr>threadMgr := 0x5000, clientId := 1, activateFlags := 0\<rparr>)))
   \<and> focus_unresolved host_unresolved world_init
   \<and> fst (ActivateEx host_unresolved 0x5000 1 0 world_init) = S_OK
   \<and> isActivated (snd (ActivateEx host_unresolved 0x5000 1 0 world_init))
   \<and> currentFocusWindow (snd (ActivateEx host_unresolved 0x5000 1 0 world_init)) = 0x20A
   \<and> new_calls (eng world_init)
        (eng (snd (OnSetFocus_DocumentMgr host_unresolved 0x7000 0 world_init)))
       = [CallOnFocusChange [] []]"
proof -
  have na: "\<not> isActivated world_init"
    by (simp add: world_init_def)
  have ok: "\<not> FAILED (fst (SetupSinks host_unresolved
      (world_init\<lparr>threadMgr := 0x5000, clientId := 1, activateFlags := 0\<rparr>)))"
    by (simp add: SetupSinks_host_unresolved FAILED_def S_OK_def)
  have fg: "GetForegroundWindow_hwnd host_unresolved = 0x20A"
    by (simp add: host_unresolved_def host_good_def)
  from unresolved_focus_falls_back
      [where h = host_unresolved and w = world_init and p = "0x5000" and c = 1 and f = 0
         and pFocus = "0x7000" and pPrev = 0]
    na ok host_unresolved_is_unresolved fg
  show ?thesis by simp
qed

section \<open>Callbacks that leave the pipe alone\<close>

lemma CleanupSinks_pipe:
  "pipe_io (CleanupSinks w) = pipe_io w" "g_hPipe (CleanupSinks w) = g_hPipe w"
  by (simp_all add: CleanupSinks_def CleanupKeystrokeSink_def CleanupThreadMgrEventSink_def
      CleanupTextEditSink_def Let_def)

lemma SetupKeystrokeSink_pipe:
  "pipe_io (snd (SetupKeystrokeSink h w)) = pipe_io w"
  "g_hPipe (snd (SetupKeystrokeSink h w)) = g_hPipe w"
  by (cases "QueryInterface_KeystrokeMgr h"; simp add: SetupKeystrokeSink_def Let_def)+

lemma SetupThreadMgrEventSink_pipe:
  "pipe_io (snd (SetupThreadMgrEventSink h w)) = pipe_io w"
  "g_hPipe (snd (SetupThreadMgrEventSink h w)) = g_hPipe w"
  by (cases "AdviseSink_result h"; simp add: SetupThreadMgrEventSink_def Let_def)+

lemma SetupSinks_pipe:
  "pipe_io (snd (SetupSinks h w)) = pipe_io w"
  "g_hPipe (snd (SetupSinks h w)) = g_hPipe w"
proof -
  obtain hr w1 where k: "SetupKeystrokeSink h w = (hr, w1)"
    by fastforce
  obtain hr2 w2 where t: "SetupThreadMgrEventSink h w1 = (hr2, w2)"
    by fastforce
  have w1: "pipe_io w1 = pipe_io w" "g_hPipe w1 = g_hPipe w"
    using SetupKeystrokeSink_pipe [of h w] by (simp_all add: k)
  have w2: "pipe_io w2 = pipe_io w" "g_hPipe w2 = g_hPipe w"
    using SetupThreadMgrEventSink_pipe [of h w1] by (simp_all add: t w1)
  show "pipe_io (snd (SetupSinks h w)) = pipe_io w" "g_hPipe (snd (SetupSinks h w)) = g_hPipe w"
    by (simp_all add: SetupSinks_def k t w1 w2 CleanupKeystrokeSink_def)
qed

lemma UpdateFocusInfo_pipe:
  "pipe_io (UpdateFocusInfo h w) = pipe_io w" "g_hPipe (UpdateFocusInfo h w) = g_hPipe w"
  by (simp_all add: UpdateFocusInfo_def Let_def)

lemma Deactivate_pipe:
  "pipe_io (snd (Deactivate h w)) = pipe_io w" "g_hPipe (snd (Deactivate h w)) = g_hPipe w"
  by (simp_all add: Deactivate_def Let_def CleanupSinks_pipe)

lemma ActivateEx_pipe:
  "pipe_io (snd (ActivateEx h p c f w)) = pipe_io w"
  "g_hPipe (snd (ActivateEx h p c f w)) = g_hPipe w"
proof -
  obtain hr w2 where
    ss: "SetupSinks h (w\<lparr>threadMgr := p, clientId := c, activateFlags := f\<rparr>) = (hr, w2)"
    by fastforce
  have w2: "pipe_io w2 = pipe_io w" "g_hPipe w2 = g_hPipe w"
    using SetupSinks_pipe [of h "w\<lparr>threadMgr := p, clientId := c, activateFlags := f\<rparr>"]
    by (simp_all add: ss)
  show "pipe_io (snd (ActivateEx h p c f w)) = pipe_io w"
    "g_hPipe (snd (ActivateEx h p c f w)) = g_hPipe w"
    by (simp_all add: ActivateEx_def ss Let_def w2 Deactivate_pipe UpdateFocusInfo_pipe)
qed

lemma OnSetFocus_DocumentMgr_pipe:
  "pipe_io (snd (OnSetFocus_DocumentMgr h p q w)) = pipe_io w"
  "g_hPipe (snd (OnSetFocus_DocumentMgr h p q w)) = g_hPipe w"
proof -
  obtain w3 where w3: "snd (OnSetFocus_DocumentMgr h p q w) = NotifyFocusChange h (UpdateFocusInfo h w3)"
    "pipe_io w3 = pipe_io w" "g_hPipe w3 = g_hPipe w"
    using OnSetFocus_DocumentMgr_shape [of h p q w] by blast
  show "pipe_io (snd (OnSetFocus_DocumentMgr h p q w)) = pipe_io w"
    "g_hPipe (snd (OnSetFocus_DocumentMgr h p q w)) = g_hPipe w"
    by (simp_all add: w3 NotifyFocusChange_def Let_def UpdateFocusInfo_pipe)
qed

lemma step_pipe:
  assumes "\<not> is_key_event c"
  shows "pipe_io (step c w) = pipe_io w" and "g_hPipe (step c w) = g_hPipe w"
  using assms
  by (cases c; simp add: Activate_def ActivateEx_pipe Deactivate_pipe SetEnabled_def
      OnSetFocus_def UpdateFocusInfo_pipe OnSetFocus_DocumentMgr_pipe
      OnTestKeyDown_def OnTestKeyUp_def OnPreservedKey_def)+

lemma WritePipe_connects:
  "length (filter is_connect (new_pipe_io w (WritePipe h vk sc fl ts down w)))
     = (if g_hPipe w = INVALID_HANDLE_VALUE then 1 else 0)"
  by (simp add: WritePipe_new_io)

lemma step_connects:
  "length (filter is_connect (new_pipe_io w (step c w)))
     \<le> (if is_key_event c \<and> g_hPipe w = INVALID_HANDLE_VALUE then 1 else 0)"
proof (cases "is_key_event c")
  case False
  then show ?thesis
    by (simp add: new_pipe_io_def step_pipe)
next
  case True
  then show ?thesis
  proof (cases c)
    case (DoOnKeyDown h wp lp)
    show ?thesis
    proof (cases "isEnabled w")
      case True
      then show ?thesis
        unfolding DoOnKeyDown step.simps OnKeyDown_new_pipe_io [OF True]
        by (simp add: WritePipe_connects)
    next
      case False
      then show ?thesis
        by (simp add: DoOnKeyDown OnKeyDown_disabled new_pipe_io_same)
    qed
  next
    case (DoOnKeyUp h wp lp)
    show ?thesis
    proof (cases "isEnabled w")
      case True
      then show ?thesis
        unfolding DoOnKeyUp step.simps OnKeyUp_enabled [OF True]
        by (simp add: WritePipe_connects)
    next
      case False
      then show ?thesis
        by (simp add: DoOnKeyUp OnKeyUp_disabled new_pipe_io_same)
    qed
  qed simp_all
qed

section \<open>The transport\<close>

text \<open>
  Claim C3. One send (\<open>WritePipe\<close>) does the following to the pipe, in this order: a single
  \<open>CreateFileW\<close> if and only if the pipe was disconnected; then a single \<open>WriteFile\<close> if
  and only if the pipe is connected at that point, on the connected handle; then
  \<open>CloseHandle\<close> if and only if that write failed. Afterwards the pipe is connected only
  if it was connected for the write and the write succeeded, so a failed write leaves it
  disconnected. After a failed write on a connected pipe, the next send makes exactly one
  connection attempt and, if it succeeds, writes its own frame to the new handle. A send
  on a connected pipe makes no connection attempt. No host callback makes more than one
  connection attempt, and only a key callback on a disconnected pipe makes one: every
  other callback leaves the pipe and its handle alone, so nothing retries in between.
\<close>

theorem transport_send_discipline:
  "new_pipe_io w (WritePipe h vk sc fl ts down w) =
     (if g_hPipe w = INVALID_HANDLE_VALUE then [CreateFileW_call (CreateFileW_handle h)] else [])
     @ (if g_hPipe (ConnectPipe h w) = INVALID_HANDLE_VALUE then []
        else WriteFile_call (g_hPipe (ConnectPipe h w)) (pipe_frame vk sc fl ts down)
               (WriteFile_success h)
             # (if WriteFile_success h then [] else [CloseHandle_call (g_hPipe (ConnectPipe h w))]))
   \<and> g_hPipe (WritePipe h vk sc fl ts down w) =
       (if g_hPipe (ConnectPipe h w) \<noteq> INVALID_HANDLE_VALUE \<and> WriteFile_success h
        then g_hPipe (ConnectPipe h w) else INVALID_HANDLE_VALUE)
   \<and> (g_hPipe w \<noteq> INVALID_HANDLE_VALUE \<and> \<not> WriteFile_success h \<longrightarrow>
        g_hPipe (WritePipe h vk sc fl ts down w) = INVALID_HANDLE_VALUE
        \<and> filter is_connect
            (new_pipe_io (WritePipe h vk sc fl ts down w)
               (WritePipe h' vk' sc' fl' ts' down' (WritePipe h vk sc fl ts down w)))
           = [CreateFileW_call (CreateFileW_handle h')]
        \<and> filter is_write
            (new_pipe_io (WritePipe h vk sc fl ts down w)
               (WritePipe h' vk' sc' fl' ts' down' (WritePipe h vk sc fl ts down w)))
           = (if CreateFileW_handle h' = INVALID_HANDLE_VALUE then []
              else [WriteFile_call (CreateFileW_handle h') (pipe_frame vk' sc' fl' ts' down')
                      (WriteFile_success h')]))
   \<and> (g_hPipe w \<noteq> INVALID_HANDLE_VALUE \<longrightarrow>
        filter is_connect (new_pipe_io w (WritePipe h vk sc fl ts down w)) = [])
   \<and> length (filter is_connect (new_pipe_io w (step call w)))
        \<le> (if is_key_event call \<and> g_hPipe w = INVALID_HANDLE_VALUE then 1 else 0)
   \<and> (\<not> is_key_event call \<longrightarrow>
        pipe_io (step call w) = pipe_io w \<and> g_hPipe (step call w) = g_hPipe w)"
proof -
  have a: "g_hPipe w \<noteq> INVALID_HANDLE_VALUE \<and> \<not> WriteFile_success h \<Longrightarrow>
      g_hPipe (WritePipe h vk sc fl ts down w) = INVALID_HANDLE_VALUE"
    by (simp add: WritePipe_handle)
  have b: "g_hPipe w \<noteq> INVALID_HANDLE_VALUE \<and> \<not> WriteFile_success h \<Longrightarrow>
      filter is_connect
            (new_pipe_io (WritePipe h vk sc fl ts down w)
               (WritePipe h' vk' sc' fl' ts' down' (WritePipe h vk sc fl ts down w)))
           = [CreateFileW_call (CreateFileW_handle h')]"
    using a by (simp add: WritePipe_new_io)
  have c: "g_hPipe w \<noteq> INVALID_HANDLE_VALUE \<and> \<not> WriteFile_success h \<Longrightarrow>
      filter is_write
            (new_pipe_io (WritePipe h vk sc fl ts down w)
               (WritePipe h' vk' sc' fl' ts' down' (WritePipe h vk sc fl ts down w)))
           = (if CreateFileW_handle h' = INVALID_HANDLE_VALUE then []
              else [WriteFile_call (CreateFileW_handle h') (pipe_frame vk' sc' fl' ts' down')
                      (WriteFile_success h')])"
    using a by (simp add: WritePipe_new_io ConnectPipe_def)
  have d: "g_hPipe w \<noteq> INVALID_HANDLE_VALUE \<Longrightarrow>
        filter is_connect (new_pipe_io w (WritePipe h vk sc fl ts down w)) = []"
    by (simp add: WritePipe_new_io ConnectPipe_def)
  from a b c d WritePipe_new_io [of w h vk sc fl ts down] WritePipe_handle [of h vk sc fl ts down w]
    step_connects [of w call] step_pipe [of call w]
  show ?thesis by blast
qed

theorem transport_send_discipline_witness:
  "g_hPipe (world_init\<lparr>g_hPipe := 0x1F4\<rparr>) \<noteq> INVALID_HANDLE_VALUE
   \<and> \<not> WriteFile_success host_write_fails
   \<and> g_hPipe (WritePipe host_write_fails 0x41 0x1E 0 1 True (world_init\<lparr>g_hPipe := 0x1F4\<rparr>))
       = INVALID_HANDLE_VALUE
   \<and> filter is_connect
        (new_pipe_io (WritePipe host_write_fails 0x41 0x1E 0 1 True (world_init\<lparr>g_hPipe := 0x1F4\<rparr>))
           (WritePipe host_good 0x42 0x30 0 2 True
              (WritePipe host_write_fails 0x41 0x1E 0 1 True (world_init\<lparr>g_hPipe := 0x1F4\<rparr>))))
       = [CreateFileW_call 0x1F4]
   \<and> filter is_write
        (new_pipe_io (WritePipe host_write_fails 0x41 0x1E 0 1 True (world_init\<lparr>g_hPipe := 0x1F4\<rparr>))
           (WritePipe host_good 0x42 0x30 0 2 True
              (WritePipe host_write_fails 0x41 0x1E 0 1 True (world_init\<lparr>g_hPipe := 0x1F4\<rparr>))))
       = [WriteFile_call 0x1F4 (pipe_frame 0x42 0x30 0 2 True) True]
   \<and> filter is_connect
        (new_pipe_io (world_init\<lparr>g_hPipe := 0x1F4\<rparr>)
           (WritePipe host_write_fails 0x41 0x1E 0 1 True (world_init\<lparr>g_hPipe := 0x1F4\<rparr>))) = []"
proof -
  note t = transport_send_discipline
    [where w = "world_init\<lparr>g_hPipe := 0x1F4\<rparr>" and h = host_write_fails
       and vk = "0x41" and sc = "0x1E" and fl = 0 and ts = 1 and down = True
       and h' = host_good and vk' = "0x42" and sc' = "0x30" and fl' = 0 and ts' = 2
       and down' = True and call = DoOnPreservedKey]
  have pre: "g_hPipe (world_init\<lparr>g_hPipe := 0x1F4\<rparr>) \<noteq> INVALID_HANDLE_VALUE"
    "\<not> WriteFile_success host_write_fails"
    "CreateFileW_handle host_good = 0x1F4" "WriteFile_success host_good"
    by (simp_all add: host_write_fails_def host_good_def INVALID_HANDLE_VALUE_def)
  have ne: "(0x1F4 :: HANDLE) \<noteq> INVALID_HANDLE_VALUE"
    by (simp add: INVALID_HANDLE_VALUE_def)
  from t [THEN conjunct2, THEN conjunct2, THEN conjunct1]
    t [THEN conjunct2, THEN conjunct2, THEN conjunct2, THEN conjunct1] pre ne
  show ?thesis by simp
qed

section \<open>A disabled service still tracks focus and sessions\<close>

lemma UpdateFocusInfo_isEnabled: "isEnabled (UpdateFocusInfo h w) = isEnabled w"
  by (simp add: UpdateFocusInfo_def Let_def)

lemma UpdateFocusInfo_new_title:
  assumes "GetForegroundWindow_hwnd h \<noteq> currentFocusWindow w"
    and "GetForegroundWindow_hwnd h \<noteq> nullptr"
  shows "currentWindowTitle (UpdateFocusInfo h w) = c_wstr 256 (GetWindowTextW_title h)"
  using assms by (simp add: UpdateFocusInfo_def Let_def)

lemma UpdateFocusInfo_depends:
  assumes "currentFocusWindow v = currentFocusWindow w"
    and "currentAppPath v = currentAppPath w"
    and "currentWindowTitle v = currentWindowTitle w"
  shows "currentAppPath (UpdateFocusInfo h v) = currentAppPath (UpdateFocusInfo h w)"
    and "currentWindowTitle (UpdateFocusInfo h v) = currentWindowTitle (UpdateFocusInfo h w)"
  using assms by (simp_all add: UpdateFocusInfo_def Let_def)

lemma OnSetFocus_DocumentMgr_effect:
  "fst (OnSetFocus_DocumentMgr h p q w) = S_OK"
  "currentFocusWindow (snd (OnSetFocus_DocumentMgr h p q w)) = GetForegroundWindow_hwnd h"
  "new_calls (eng w) (eng (snd (OnSetFocus_DocumentMgr h p q w))) =
     [CallOnFocusChange (WideToUTF8 h (currentAppPath (UpdateFocusInfo h w)))
        (WideToUTF8 h (currentWindowTitle (UpdateFocusInfo h w)))]"
proof -
  obtain w3 where w3:
    "snd (OnSetFocus_DocumentMgr h p q w) = NotifyFocusChange h (UpdateFocusInfo h w3)"
    "fst (OnSetFocus_DocumentMgr h p q w) = S_OK"
    "eng w3 = eng w" "currentAppPath w3 = currentAppPath w"
    "currentWindowTitle w3 = currentWindowTitle w" "currentFocusWindow w3 = currentFocusWindow w"
    using OnSetFocus_DocumentMgr_shape [of h p q w] by blast
  note d = UpdateFocusInfo_depends [OF w3(6) w3(4) w3(5), where h = h]
  show "fst (OnSetFocus_DocumentMgr h p q w) = S_OK"
    by (rule w3(2))
  show "currentFocusWindow (snd (OnSetFocus_DocumentMgr h p q w)) = GetForegroundWindow_hwnd h"
    by (simp add: w3(1) NotifyFocusChange_def Let_def UpdateFocusInfo_handle)
  show "new_calls (eng w) (eng (snd (OnSetFocus_DocumentMgr h p q w))) =
     [CallOnFocusChange (WideToUTF8 h (currentAppPath (UpdateFocusInfo h w)))
        (WideToUTF8 h (currentWindowTitle (UpdateFocusInfo h w)))]"
    by (simp add: w3(1,3) d NotifyFocusChange_def Let_def UpdateFocusInfo_frame
        WitnessdOnFocusChange_def new_calls_def)
qed

lemma Deactivate_activated:
  assumes "isActivated w"
  shows "\<not> WitnessdHasActiveSession (eng (snd (Deactivate h w)))"
    and "new_calls (eng w) (eng (snd (Deactivate h w))) =
      (if WitnessdHasActiveSession (eng w)
       then CallEndSession # (if EndSession_evidence h \<noteq> None then [CallFreeString] else [])
       else [])"
  using assms by (simp_all add: Deactivate_eng new_calls_def WitnessdHasActiveSession_def)

lemma Deactivate_isEnabled: "isEnabled (snd (Deactivate h w)) = isEnabled w"
  by (simp add: Deactivate_def Let_def CleanupSinks_def CleanupKeystrokeSink_def
      CleanupThreadMgrEventSink_def CleanupTextEditSink_def)

text \<open>
  Claim C7. While the enabled flag is false, \<open>OnKeyDown\<close> and \<open>OnKeyUp\<close> return \<open>S_OK\<close>
  with \<open>*pfEaten = FALSE\<close> and leave the whole state as it was: nothing is done to the
  pipe and the engine is not called. Focus tracking and the session lifecycle neither
  read nor write the flag: run with the flag set to any value, \<open>OnSetFocus\<close>, the thread
  manager's focus callback, \<open>Activate\<close>, \<open>ActivateEx\<close> and \<open>Deactivate\<close> return the same
  result and produce the same state, flag apart. And they do run while the flag is false:
  \<open>OnSetFocus\<close> returns \<open>S_OK\<close>, stores the current foreground window and, for a new
  window, its title; the thread manager's focus callback stores the foreground window
  too and reports the resolved application and title to the engine; an activation whose
  sinks are set up returns \<open>S_OK\<close>, marks the service activated and starts a session for
  the resolved target (with the fallbacks for empty strings); \<open>Deactivate\<close> on an activated
  service returns \<open>S_OK\<close>, ends the session if one is open and leaves none open; and the
  flag stays false throughout.
\<close>

theorem disabled_key_callbacks_are_noops:
  "(\<not> isEnabled w \<longrightarrow>
       OnKeyDown h wParam lParam w = (S_OK, False, w)
     \<and> OnKeyUp h wParam lParam w = (S_OK, False, w)
     \<and> new_pipe_io w (snd (snd (OnKeyDown h wParam lParam w))) = []
     \<and> new_pipe_io w (snd (snd (OnKeyUp h wParam lParam w))) = []
     \<and> new_calls (eng w) (eng (snd (snd (OnKeyDown h wParam lParam w)))) = []
     \<and> new_calls (eng w) (eng (snd (snd (OnKeyUp h wParam lParam w)))) = [])
   \<and> OnSetFocus h fForeground (SetEnabled b w) = apsnd (SetEnabled b) (OnSetFocus h fForeground w)
   \<and> OnSetFocus_DocumentMgr h p q (SetEnabled b w)
       = apsnd (SetEnabled b) (OnSetFocus_DocumentMgr h p q w)
   \<and> ActivateEx h p c f (SetEnabled b w) = apsnd (SetEnabled b) (ActivateEx h p c f w)
   \<and> Activate h p c (SetEnabled b w) = apsnd (SetEnabled b) (Activate h p c w)
   \<and> Deactivate h (SetEnabled b w) = apsnd (SetEnabled b) (Deactivate h w)
   \<and> (\<not> isEnabled w \<longrightarrow>
         fst (OnSetFocus h fForeground w) = S_OK
       \<and> currentFocusWindow (snd (OnSetFocus h fForeground w)) = GetForegroundWindow_hwnd h
       \<and> (GetForegroundWindow_hwnd h \<noteq> currentFocusWindow w
            \<and> GetForegroundWindow_hwnd h \<noteq> nullptr \<longrightarrow>
          currentWindowTitle (snd (OnSetFocus h fForeground w))
            = c_wstr 256 (GetWindowTextW_title h))
       \<and> \<not> isEnabled (snd (OnSetFocus h fForeground w))
       \<and> fst (OnSetFocus_DocumentMgr h p q w) = S_OK
       \<and> currentFocusWindow (snd (OnSetFocus_DocumentMgr h p q w)) = GetForegroundWindow_hwnd h
       \<and> new_calls (eng w) (eng (snd (OnSetFocus_DocumentMgr h p q w))) =
           [CallOnFocusChange (WideToUTF8 h (currentAppPath (UpdateFocusInfo h w)))
              (WideToUTF8 h (currentWindowTitle (UpdateFocusInfo h w)))]
       \<and> (\<not> isActivated w
            \<and> \<not> FAILED (fst (SetupSinks h (w\<lparr>threadMgr := p, clientId := c, activateFlags := f\<rparr>)))
          \<longrightarrow> fst (ActivateEx h p c f w) = S_OK
            \<and> isActivated (snd (ActivateEx h p c f w))
            \<and> currentFocusWindow (snd (ActivateEx h p c f w)) = GetForegroundWindow_hwnd h
            \<and> new_calls (eng w) (eng (snd (ActivateEx h p c f w))) =
                [CallStartSession
                   (if WideToUTF8 h (currentAppPath (UpdateFocusInfo h w)) = []
                    then ''windows.tsf''
                    else WideToUTF8 h (currentAppPath (UpdateFocusInfo h w)))
                   (if WideToUTF8 h (currentWindowTitle (UpdateFocusInfo h w)) = []
                    then ''default''
                    else WideToUTF8 h (currentWindowTitle (UpdateFocusInfo h w)))])
       \<and> (isActivated w
          \<longrightarrow> fst (Deactivate h w) = S_OK
            \<and> \<not> isActivated (snd (Deactivate h w))
            \<and> \<not> isEnabled (snd (Deactivate h w))
            \<and> \<not> WitnessdHasActiveSession (eng (snd (Deactivate h w)))
            \<and> new_calls (eng w) (eng (snd (Deactivate h w))) =
                (if WitnessdHasActiveSession (eng w)
                 then CallEndSession
                      # (if EndSession_evidence h \<noteq> None then [CallFreeString] else [])
                 else [])))"
proof -
  have se: "SetEnabled b = (\<lambda>v. v\<lparr>isEnabled := b\<rparr>)"
    by (rule ext) (simp add: SetEnabled_def)
  have keys: "\<not> isEnabled w \<Longrightarrow>
       OnKeyDown h wParam lParam w = (S_OK, False, w)
     \<and> OnKeyUp h wParam lParam w = (S_OK, False, w)
     \<and> new_pipe_io w (snd (snd (OnKeyDown h wParam lParam w))) = []
     \<and> new_pipe_io w (snd (snd (OnKeyUp h wParam lParam w))) = []
     \<and> new_calls (eng w) (eng (snd (snd (OnKeyDown h wParam lParam w)))) = []
     \<and> new_calls (eng w) (eng (snd (snd (OnKeyUp h wParam lParam w)))) = []"
    by (simp add: OnKeyDown_disabled OnKeyUp_disabled new_pipe_io_same new_calls_same)
  have focus: "OnSetFocus h fForeground (SetEnabled b w)
      = apsnd (SetEnabled b) (OnSetFocus h fForeground w)"
    unfolding se by (simp add: OnSetFocus_enabled)
  have focus2: "OnSetFocus_DocumentMgr h p q (SetEnabled b w)
      = apsnd (SetEnabled b) (OnSetFocus_DocumentMgr h p q w)"
    unfolding se by (simp add: OnSetFocus_DocumentMgr_enabled)
  have act: "\<And>f. ActivateEx h p c f (SetEnabled b w) = apsnd (SetEnabled b) (ActivateEx h p c f w)"
    unfolding se by (simp add: ActivateEx_enabled)
  have deact: "Deactivate h (SetEnabled b w) = apsnd (SetEnabled b) (Deactivate h w)"
    unfolding se by (simp add: Deactivate_enabled)
  have tracks: "fst (OnSetFocus h fForeground w) = S_OK
       \<and> currentFocusWindow (snd (OnSetFocus h fForeground w)) = GetForegroundWindow_hwnd h
       \<and> (GetForegroundWindow_hwnd h \<noteq> currentFocusWindow w
            \<and> GetForegroundWindow_hwnd h \<noteq> nullptr \<longrightarrow>
          currentWindowTitle (snd (OnSetFocus h fForeground w))
            = c_wstr 256 (GetWindowTextW_title h))
       \<and> isEnabled (snd (OnSetFocus h fForeground w)) = isEnabled w"
    by (simp add: OnSetFocus_def UpdateFocusInfo_handle UpdateFocusInfo_new_title
        UpdateFocusInfo_isEnabled)
  have starts: "fst (ActivateEx h p c f w) = S_OK
            \<and> isActivated (snd (ActivateEx h p c f w))
            \<and> currentFocusWindow (snd (ActivateEx h p c f w)) = GetForegroundWindow_hwnd h
            \<and> new_calls (eng w) (eng (snd (ActivateEx h p c f w))) =
                [CallStartSession
                   (if WideToUTF8 h (currentAppPath (UpdateFocusInfo h w)) = []
                    then ''windows.tsf''
                    else WideToUTF8 h (currentAppPath (UpdateFocusInfo h w)))
                   (if WideToUTF8 h (currentWindowTitle (UpdateFocusInfo h w)) = []
                    then ''default''
                    else WideToUTF8 h (currentWindowTitle (UpdateFocusInfo h w)))]"
    if "\<not> isActivated w"
      and "\<not> FAILED (fst (SetupSinks h (w\<lparr>threadMgr := p, clientId := c, activateFlags := f\<rparr>)))"
    using ActivateEx_success [OF that] by blast
  have ends: "fst (Deactivate h w) = S_OK
            \<and> \<not> isActivated (snd (Deactivate h w))
            \<and> isEnabled (snd (Deactivate h w)) = isEnabled w
            \<and> \<not> WitnessdHasActiveSession (eng (snd (Deactivate h w)))
            \<and> new_calls (eng w) (eng (snd (Deactivate h w))) =
                (if WitnessdHasActiveSession (eng w)
                 then CallEndSession
                      # (if EndSession_evidence h \<noteq> None then [CallFreeString] else [])
                 else [])"
    if "isActivated w"
    using Deactivate_post [where h = h and w = w] Deactivate_activated [OF that, where h = h]
      Deactivate_isEnabled [where h = h and w = w]
    by blast
  from keys focus focus2 act deact tracks
    OnSetFocus_DocumentMgr_effect [where h = h and p = p and q = q and w = w] starts ends
  show ?thesis
    unfolding Activate_def by blast
qed

theorem disabled_key_callbacks_are_noops_witness:
  "\<not> isEnabled (SetEnabled False world_init)
   \<and> OnKeyDown host_good 0x41 lparam_A (SetEnabled False world_init)
       = (S_OK, False, SetEnabled False world_init)
   \<and> OnKeyUp host_good 0x41 lparam_A (SetEnabled False world_init)
       = (S_OK, False, SetEnabled False world_init)
   \<and> currentFocusWindow (snd (OnSetFocus host_good True (SetEnabled False world_init))) = 0x20A
   \<and> currentWindowTitle (snd (OnSetFocus host_good True (SetEnabled False world_init)))
       = [0x64, 0x6F, 0x63, 0x31]
   \<and> new_calls (eng (SetEnabled False world_init))
        (eng (snd (OnSetFocus_DocumentMgr host_good 0x5000 0 (SetEnabled False world_init))))
       = [CallOnFocusChange ''app.x'' ''doc1'']
   \<and> isActivated (snd (ActivateEx host_good 0x5000 1 0 (SetEnabled False world_init)))
   \<and> new_calls (eng (SetEnabled False world_init))
        (eng (snd (ActivateEx host_good 0x5000 1 0 (SetEnabled False world_init))))
       = [CallStartSession ''app.x'' ''doc1'']
   \<and> \<not> isEnabled (snd (ActivateEx host_good 0x5000 1 0 (SetEnabled False world_init)))
   \<and> new_calls (eng (snd (ActivateEx host_good 0x5000 1 0 (SetEnabled False world_init))))
        (eng (snd (Deactivate host_good
           (snd (ActivateEx host_good 0x5000 1 0 (SetEnabled False world_init))))))
       = [CallEndSession, CallFreeString]
   \<and> \<not> WitnessdHasActiveSession
        (eng (snd (Deactivate host_good
           (snd (ActivateEx host_good 0x5000 1 0 (SetEnabled False world_init))))))"
proof -
  let ?w0 = "SetEnabled False world_init"
  let ?w1 = "snd (ActivateEx host_good 0x5000 1 0 ?w0)"
  have dis: "\<not> isEnabled ?w0"
    by (simp add: SetEnabled_def)
  have na: "\<not> isActivated ?w0"
    by (simp add: SetEnabled_def world_init_def)
  have fg: "GetForegroundWindow_hwnd host_good = 0x20A"
    "GetForegroundWindow_hwnd host_good \<noteq> currentFocusWindow ?w0"
    "GetForegroundWindow_hwnd host_good \<noteq> nullptr"
    "c_wstr 256 (GetWindowTextW_title host_good) = [0x64, 0x6F, 0x63, 0x31]"
    "EndSession_evidence host_good \<noteq> None"
    by (simp_all add: host_good_def SetEnabled_def world_init_def nullptr_def c_wstr_def)
  have ok: "\<not> FAILED (fst (SetupSinks host_good
      (?w0\<lparr>threadMgr := 0x5000, clientId := 1, activateFlags := 0\<rparr>)))"
    by (simp add: SetupSinks_def SetupKeystrokeSink_def SetupThreadMgrEventSink_def
        host_good_def SetEnabled_def world_init_def FAILED_def S_OK_def nullptr_def Let_def)
  have upd: "currentAppPath (UpdateFocusInfo host_good ?w0) = [0x61, 0x70, 0x70, 0x2E, 0x78]"
    "currentWindowTitle (UpdateFocusInfo host_good ?w0) = [0x64, 0x6F, 0x63, 0x31]"
    by (simp_all add: UpdateFocusInfo_def Let_def SetEnabled_def world_init_def host_good_def
        nullptr_def c_wstr_def MAX_PATH_def)
  have utf: "WideToUTF8 host_good [0x61, 0x70, 0x70, 0x2E, 0x78] = ''app.x''"
    "WideToUTF8 host_good [0x64, 0x6F, 0x63, 0x31] = ''doc1''"
    by (simp_all add: WideToUTF8_def host_good_def ascii_utf8_def Let_def char_of_def bit_0)
  note t0 = disabled_key_callbacks_are_noops
      [where w = ?w0 and h = host_good and wParam = "0x41" and lParam = lparam_A and b = True
         and fForeground = True and p = "0x5000" and q = 0 and c = 1 and f = 0]
  from t0 dis na ok fg(2,3) have r0:
    "OnKeyDown host_good 0x41 lparam_A ?w0 = (S_OK, False, ?w0)"
    "OnKeyUp host_good 0x41 lparam_A ?w0 = (S_OK, False, ?w0)"
    "currentFocusWindow (snd (OnSetFocus host_good True ?w0)) = GetForegroundWindow_hwnd host_good"
    "currentWindowTitle (snd (OnSetFocus host_good True ?w0))
       = c_wstr 256 (GetWindowTextW_title host_good)"
    "new_calls (eng ?w0) (eng (snd (OnSetFocus_DocumentMgr host_good 0x5000 0 ?w0))) =
       [CallOnFocusChange (WideToUTF8 host_good (currentAppPath (UpdateFocusInfo host_good ?w0)))
          (WideToUTF8 host_good (currentWindowTitle (UpdateFocusInfo host_good ?w0)))]"
    "isActivated ?w1"
    "new_calls (eng ?w0) (eng ?w1) =
       [CallStartSession
          (if WideToUTF8 host_good (currentAppPath (UpdateFocusInfo host_good ?w0)) = []
           then ''windows.tsf''
           else WideToUTF8 host_good (currentAppPath (UpdateFocusInfo host_good ?w0)))
          (if WideToUTF8 host_good (currentWindowTitle (UpdateFocusInfo host_good ?w0)) = []
           then ''default''
           else WideToUTF8 host_good (currentWindowTitle (UpdateFocusInfo host_good ?w0)))]"
    by blast+
  have dis1: "\<not> isEnabled ?w1"
    by (simp add: SetEnabled_def ActivateEx_enabled)
  have e1: "eng ?w1 = \<lparr>session = Some (''app.x'', ''doc1''),
      calls = [CallStartSession ''app.x'' ''doc1'']\<rparr>"
    by (simp add: SetEnabled_def ActivateEx_enabled activate_example)
  have s1: "WitnessdHasActiveSession (eng ?w1)"
    by (simp add: e1 WitnessdHasActiveSession_def)
  note t1 = disabled_key_callbacks_are_noops
      [where w = ?w1 and h = host_good and wParam = "0x41" and lParam = lparam_A and b = True
         and fForeground = True and p = "0x5000" and q = 0 and c = 1 and f = 0]
  from t1 dis1 r0(6) have r1:
    "\<not> WitnessdHasActiveSession (eng (snd (Deactivate host_good ?w1)))"
    "new_calls (eng ?w1) (eng (snd (Deactivate host_good ?w1))) =
       (if WitnessdHasActiveSession (eng ?w1)
        then CallEndSession
             # (if EndSession_evidence host_good \<noteq> None then [CallFreeString] else [])
        else [])"
    by blast+
  have c0: "new_calls (eng ?w0) (eng (snd (OnSetFocus_DocumentMgr host_good 0x5000 0 ?w0)))
       = [CallOnFocusChange ''app.x'' ''doc1'']"
    unfolding r0(5) upd utf by (rule refl)
  have c1: "new_calls (eng ?w0) (eng ?w1) = [CallStartSession ''app.x'' ''doc1'']"
    unfolding r0(7) upd utf by simp
  have c2: "new_calls (eng ?w1) (eng (snd (Deactivate host_good ?w1)))
       = [CallEndSession, CallFreeString]"
    unfolding r1(2) using s1 fg(5) by simp
  have f0: "currentFocusWindow (snd (OnSetFocus host_good True ?w0)) = 0x20A"
    "currentWindowTitle (snd (OnSetFocus host_good True ?w0)) = [0x64, 0x6F, 0x63, 0x31]"
    unfolding r0(3,4) fg(1,4) by (rule refl)+
  from dis r0(1,2) f0 c0 r0(6) c1 dis1 c2 r1(1) show ?thesis
    by blast
qed

end
